theory Spec2Isabelle
  imports Complex_Main "HOL-Library.AList"
begin

section \<open>Python values, exceptions and the outside world\<close>

text \<open>
  The unified client of \<^verbatim>\<open>src/demo/ai_client.py\<close> and the Ollama client of
  \<^verbatim>\<open>src/demo/ollama_client.py\<close> pass JSON-like Python values around: request payloads,
  parsed responses, and the response objects of the hosted provider's client library.
  A dictionary is an association list with string keys (the keys of JSON objects and of
  keyword arguments), looked up with \<open>map_of\<close> and written with \<open>AList.update\<close>.
  \<open>PObj\<close> is an object whose fields are read as attributes (\<^verbatim>\<open>response.choices\<close>).
\<close>

datatype pyval =
    PNone
  | PBool bool
  | PInt int
  | PFloat real
  | PStr string
  | PList "pyval list"
  | PDict "(string \<times> pyval) list"
  | PObj "(string \<times> pyval) list"

text \<open>
  An exception instance: the name of its class and its \<^verbatim>\<open>__cause__\<close>. Only instances of
  \<^verbatim>\<open>Exception\<close> are modelled, so \<^verbatim>\<open>except Exception\<close> catches every value of this type.
\<close>

datatype pyexn = PyExn (exn_class: string) (exn_cause: "pyexn option")

abbreviation raise_exn :: "string \<Rightarrow> pyexn + 'a" where
  "raise_exn cls \<equiv> Inl (PyExn cls None)"

text \<open>The subscripts the code writes are string literals and the integer literal 0.\<close>

datatype pykey = KStr string | KInt int

text \<open>
  \<^verbatim>\<open>v[k]\<close>: a missing dictionary key is a KeyError, a list index out of range an
  IndexError, a string subscripted by a string and a value that has no subscript at all
  (\<^verbatim>\<open>None\<close>, a number, a plain object) a TypeError.
\<close>

definition list_index :: "'a list \<Rightarrow> int \<Rightarrow> 'a option" where
  "list_index xs i =
     (if 0 \<le> i \<and> i < int (length xs) then Some (xs ! nat i)
      else if i < 0 \<and> - int (length xs) \<le> i then Some (xs ! nat (int (length xs) + i))
      else None)"

fun py_getitem :: "pyval \<Rightarrow> pykey \<Rightarrow> pyexn + pyval" where
  "py_getitem (PDict d) (KStr k) =
     (case map_of d k of None \<Rightarrow> raise_exn ''KeyError'' | Some v \<Rightarrow> Inr v)"
| "py_getitem (PDict d) (KInt i) = raise_exn ''KeyError''"
| "py_getitem (PList xs) (KInt i) =
     (case list_index xs i of None \<Rightarrow> raise_exn ''IndexError'' | Some v \<Rightarrow> Inr v)"
| "py_getitem (PList xs) (KStr k) = raise_exn ''TypeError''"
| "py_getitem (PStr s) (KInt i) =
     (case list_index s i of None \<Rightarrow> raise_exn ''IndexError'' | Some c \<Rightarrow> Inr (PStr [c]))"
| "py_getitem (PStr s) (KStr k) = raise_exn ''TypeError''"
| "py_getitem v k = raise_exn ''TypeError''"

text \<open>\<^verbatim>\<open>hasattr(v, name)\<close> and \<^verbatim>\<open>v.name\<close>: only objects carry the fields of a response.\<close>

fun py_hasattr :: "pyval \<Rightarrow> string \<Rightarrow> bool" where
  "py_hasattr (PObj fs) a = (map_of fs a \<noteq> None)"
| "py_hasattr v a = False"

fun py_getattr :: "pyval \<Rightarrow> string \<Rightarrow> pyexn + pyval" where
  "py_getattr (PObj fs) a =
     (case map_of fs a of None \<Rightarrow> raise_exn ''AttributeError'' | Some v \<Rightarrow> Inr v)"
| "py_getattr v a = raise_exn ''AttributeError''"

text \<open>
  \<^verbatim>\<open>name in v\<close> for a string \<open>name\<close>: a key test on a dictionary, membership in a list, a
  substring test on a string, and a TypeError on a value that is not a container.
\<close>

fun is_substring :: "string \<Rightarrow> string \<Rightarrow> bool" where
  "is_substring xs [] = (xs = [])"
| "is_substring xs (y # ys) = (take (length xs) (y # ys) = xs \<or> is_substring xs ys)"

fun py_contains :: "string \<Rightarrow> pyval \<Rightarrow> pyexn + bool" where
  "py_contains k (PDict d) = Inr (map_of d k \<noteq> None)"
| "py_contains k (PList xs) = Inr (PStr k \<in> set xs)"
| "py_contains k (PStr s) = Inr (is_substring k s)"
| "py_contains k v = raise_exn ''TypeError''"

fun isinstance_dict :: "pyval \<Rightarrow> bool" where
  "isinstance_dict (PDict d) = True"
| "isinstance_dict v = False"

text \<open>Sequencing of steps that may raise: the first exception ends the block.\<close>

definition bind_exn :: "pyexn + 'a \<Rightarrow> ('a \<Rightarrow> pyexn + 'b) \<Rightarrow> pyexn + 'b" where
  "bind_exn r f = (case r of Inl e \<Rightarrow> Inl e | Inr v \<Rightarrow> f v)"

text \<open>
  \<^verbatim>\<open>except (KeyError, IndexError, AttributeError)\<close>: the handler of the two text
  extraction methods. Every other exception passes through it.
\<close>

definition caught_by_extraction :: "pyexn \<Rightarrow> bool" where
  "caught_by_extraction e =
     (exn_class e = ''KeyError'' \<or> exn_class e = ''IndexError'' \<or> exn_class e = ''AttributeError'')"

text \<open>
  The Transport: \<^verbatim>\<open>requests.post(url, headers=..., json=...)\<close> or \<^verbatim>\<open>requests.get(url)\<close>,
  followed by \<^verbatim>\<open>raise_for_status()\<close> and \<^verbatim>\<open>json()\<close>, and the calls of the hosted provider's
  client library. The world outside the program answers a request with the parsed
  response or with an exception, and may change while doing so. The requests a run has
  issued are recorded in order.
\<close>

datatype http_request =
    POST string "(string \<times> string) list" pyval
  | GET string
  | SDK string "(string \<times> pyval) list"

type_synonym 'w transport = "http_request \<Rightarrow> 'w \<Rightarrow> (pyexn + pyval) \<times> 'w"

record 'w net =
  world :: 'w
  sent :: "http_request list"

definition issue :: "'w transport \<Rightarrow> http_request \<Rightarrow> 'w net \<Rightarrow> (pyexn + pyval) \<times> 'w net" where
  "issue T r n =
     (case T r (world n) of (res, w') \<Rightarrow> (res, \<lparr>world = w', sent = sent n @ [r]\<rparr>))"

text \<open>
  \<^verbatim>\<open>random.random()\<close> draws from a generator that lives in the outside world; \<open>draws\<close>
  is the list comprehension \<^verbatim>\<open>[random.random() for _ in range(k)]\<close>.
\<close>

type_synonym 'w rng = "'w \<Rightarrow> real \<times> 'w"

fun draws :: "'w rng \<Rightarrow> nat \<Rightarrow> 'w \<Rightarrow> real list \<times> 'w" where
  "draws R 0 w = ([], w)"
| "draws R (Suc k) w =
     (case R w of (x, w') \<Rightarrow> (case draws R k w' of (xs, w'') \<Rightarrow> (x # xs, w'')))"

section \<open>The unified client\<close>

datatype AIProvider = OPENAI | DEEPSEEK | OLLAMA | LOCAL

definition provider_value :: "AIProvider \<Rightarrow> string" where
  "provider_value p =
     (case p of OPENAI \<Rightarrow> ''openai'' | DEEPSEEK \<Rightarrow> ''deepseek''
      | OLLAMA \<Rightarrow> ''ollama'' | LOCAL \<Rightarrow> ''local'')"

text \<open>
  The constructor takes an enumeration member or its string value; \<^verbatim>\<open>AIProvider(name)\<close>
  raises a ValueError on a string that is no member's value.
\<close>

datatype provider_arg = Member AIProvider | Named string

definition AIProvider_of :: "provider_arg \<Rightarrow> pyexn + AIProvider" where
  "AIProvider_of a =
     (case a of
        Member p \<Rightarrow> Inr p
      | Named s \<Rightarrow>
          (if s = ''openai'' then Inr OPENAI
           else if s = ''deepseek'' then Inr DEEPSEEK
           else if s = ''ollama'' then Inr OLLAMA
           else if s = ''local'' then Inr LOCAL
           else raise_exn ''ValueError''))"

text \<open>
  Truthiness of an optional string, and \<^verbatim>\<open>a or b\<close> on optional strings: \<^verbatim>\<open>None\<close> and the
  empty string are false.
\<close>

definition truthy :: "string option \<Rightarrow> bool" where
  "truthy a = (case a of None \<Rightarrow> False | Some s \<Rightarrow> s \<noteq> [])"

definition py_or :: "string option \<Rightarrow> string option \<Rightarrow> string option" where
  "py_or a b = (if truthy a then a else b)"

text \<open>
  The fields of an \<^verbatim>\<open>AIClient\<close>. \<open>client\<close> is the handle of the hosted provider's client
  library (the credential it was built with), present only for OPENAI with a credential
  and an installed library.
\<close>

record AIClient =
  provider :: AIProvider
  use_local_fallback :: bool
  api_key :: "string option"
  base_url :: "string option"
  client :: "string option"
  headers :: "(string \<times> string) list"

definition make_headers :: "string option \<Rightarrow> (string \<times> string) list" where
  "make_headers k =
     (case k of
        None \<Rightarrow> [(''Content-Type'', ''application/json'')]
      | Some s \<Rightarrow>
          (if s \<noteq> []
           then [(''Authorization'', ''Bearer '' @ s), (''Content-Type'', ''application/json'')]
           else [(''Content-Type'', ''application/json'')]))"

text \<open>
  \<^verbatim>\<open>AIClient.__init__\<close>. \<open>environ\<close> is \<^verbatim>\<open>os.environ\<close>; \<open>sdk_installed\<close> says whether
  \<^verbatim>\<open>from openai import OpenAI\<close> succeeds.
\<close>

definition AIClient_init ::
  "(string \<rightharpoonup> string) \<Rightarrow> bool \<Rightarrow> provider_arg \<Rightarrow> string option \<Rightarrow> string option \<Rightarrow> bool
     \<Rightarrow> pyexn + AIClient" where
  "AIClient_init environ sdk_installed parg key url fallback =
     bind_exn (AIProvider_of parg) (\<lambda>p.
       case p of
         OPENAI \<Rightarrow>
           (let k = py_or key (environ ''OPENAI_API_KEY'') in
            if \<not> truthy k \<and> \<not> fallback then raise_exn ''ValueError''
            else Inr \<lparr>provider = p, use_local_fallback = fallback, api_key = k,
                      base_url = py_or url (Some ''https://api.openai.com/v1''),
                      client = (if truthy k \<and> sdk_installed then k else None),
                      headers = make_headers k\<rparr>)
       | DEEPSEEK \<Rightarrow>
           (let k = py_or key (environ ''DEEPSEEK_API_KEY'') in
            if \<not> truthy k \<and> \<not> fallback then raise_exn ''ValueError''
            else Inr \<lparr>provider = p, use_local_fallback = fallback, api_key = k,
                      base_url = py_or url (Some ''https://api.deepseek.com/v1''),
                      client = None,
                      headers = make_headers k\<rparr>)
       | OLLAMA \<Rightarrow>
           Inr \<lparr>provider = p, use_local_fallback = fallback, api_key = key,
                base_url = py_or url (Some ''http://localhost:11434''),
                client = None,
                headers = make_headers key\<rparr>
       | LOCAL \<Rightarrow>
           Inr \<lparr>provider = p, use_local_fallback = fallback, api_key = None,
                base_url = None,
                client = None,
                headers = make_headers None\<rparr>)"

text \<open>The default model of each operation, chosen when the caller passes \<^verbatim>\<open>model=None\<close>.\<close>

datatype operation = Chat | Text | Embedding

definition default_model :: "operation \<Rightarrow> AIProvider \<Rightarrow> string" where
  "default_model opn p =
     (case opn of
        Chat \<Rightarrow> (case p of OPENAI \<Rightarrow> ''gpt-3.5-turbo'' | DEEPSEEK \<Rightarrow> ''deepseek-chat''
                  | OLLAMA \<Rightarrow> ''llama2'' | LOCAL \<Rightarrow> ''local-model'')
      | Text \<Rightarrow> (case p of OPENAI \<Rightarrow> ''gpt-3.5-turbo-instruct'' | DEEPSEEK \<Rightarrow> ''deepseek-coder''
                  | OLLAMA \<Rightarrow> ''llama2'' | LOCAL \<Rightarrow> ''local-model'')
      | Embedding \<Rightarrow> (case p of OPENAI \<Rightarrow> ''text-embedding-ada-002''
                  | DEEPSEEK \<Rightarrow> ''deepseek-embedding''
                  | OLLAMA \<Rightarrow> ''llama2'' | LOCAL \<Rightarrow> ''local-embedding''))"

definition effective_model :: "operation \<Rightarrow> AIClient \<Rightarrow> string option \<Rightarrow> string" where
  "effective_model opn c model =
     (case model of None \<Rightarrow> default_model opn (provider c) | Some m \<Rightarrow> m)"

section \<open>The Offline-Stub\<close>

text \<open>
  The two placeholder texts are Chinese sentences; they are given as the bytes of their
  UTF-8 encoding.
\<close>

definition local_chat_text :: string where
  "local_chat_text = map char_of
     ([
        232, 191, 153, 230, 152, 175, 228, 184, 128, 228, 184, 170, 230, 156, 172, 229,
        156, 176, 230, 168, 161, 229, 158, 139, 231, 148, 159, 230, 136, 144, 231, 154,
        132, 229, 155, 158, 229, 164, 141, 227, 128, 130, 229, 156, 168, 229, 174, 158,
        233, 153, 133, 229, 186, 148, 231, 148, 168, 228, 184, 173, 239, 188, 140, 230,
        130, 168, 229, 143, 175, 228, 187, 165, 233, 155, 134, 230, 136, 144, 231, 156,
        159, 230, 173, 163, 231, 154, 132, 230, 156, 172, 229, 156, 176, 230, 168, 161,
        229, 158, 139, 227, 128, 130] :: nat list)"

definition local_completion_text :: string where
  "local_completion_text = map char_of
     ([
        232, 191, 153, 230, 152, 175, 228, 184, 128, 228, 184, 170, 230, 156, 172, 229,
        156, 176, 230, 168, 161, 229, 158, 139, 231, 148, 159, 230, 136, 144, 231, 154,
        132, 230, 150, 135, 230, 156, 172, 229, 174, 140, 230, 136, 144, 227, 128, 130,
        229, 156, 168, 229, 174, 158, 233, 153, 133, 229, 186, 148, 231, 148, 168, 228,
        184, 173, 239, 188, 140, 230, 130, 168, 229, 143, 175, 228, 187, 165, 233, 155,
        134, 230, 136, 144, 231, 156, 159, 230, 173, 163, 231, 154, 132, 230, 156, 172,
        229, 156, 176, 230, 168, 161, 229, 158, 139, 227, 128, 130] :: nat list)"

definition opt_float :: "real option \<Rightarrow> pyval" where
  "opt_float t = (case t of None \<Rightarrow> PNone | Some x \<Rightarrow> PFloat x)"

definition opt_int :: "int option \<Rightarrow> pyval" where
  "opt_int k = (case k of None \<Rightarrow> PNone | Some i \<Rightarrow> PInt i)"

definition usage_stub :: pyval where
  "usage_stub =
     PDict [(''completion_tokens'', PInt 20), (''prompt_tokens'', PInt 10),
            (''total_tokens'', PInt 30)]"

text \<open>\<^verbatim>\<open>AIClient._local_chat_completion\<close>\<close>

definition local_chat_completion ::
  "pyval \<Rightarrow> string \<Rightarrow> real option \<Rightarrow> int option \<Rightarrow> (string \<times> pyval) list \<Rightarrow> pyval" where
  "local_chat_completion messages model temperature max_tokens kwargs =
     PDict [(''choices'',
               PList [PDict [(''message'',
                                PDict [(''content'', PStr local_chat_text),
                                       (''role'', PStr ''assistant'')]),
                             (''finish_reason'', PStr ''stop''),
                             (''index'', PInt 0)]]),
            (''model'', PStr model),
            (''usage'', usage_stub)]"

text \<open>\<^verbatim>\<open>AIClient._local_text_completion\<close>\<close>

definition local_text_completion ::
  "string \<Rightarrow> string \<Rightarrow> real option \<Rightarrow> int option \<Rightarrow> (string \<times> pyval) list \<Rightarrow> pyval" where
  "local_text_completion prompt model temperature max_tokens kwargs =
     PDict [(''choices'',
               PList [PDict [(''text'', PStr local_completion_text),
                             (''finish_reason'', PStr ''stop''),
                             (''index'', PInt 0)]]),
            (''model'', PStr model),
            (''usage'', usage_stub)]"

text \<open>\<^verbatim>\<open>AIClient._local_embedding\<close>: 1536 draws of \<^verbatim>\<open>random.random()\<close>.\<close>

definition local_embedding :: "'w rng \<Rightarrow> string \<Rightarrow> string \<Rightarrow> 'w net \<Rightarrow> real list \<times> 'w net" where
  "local_embedding R text model n =
     (case draws R 1536 (world n) of (xs, w') \<Rightarrow> (xs, n\<lparr>world := w'\<rparr>))"

section \<open>The logical operations\<close>

text \<open>
  A dictionary display with \<^verbatim>\<open>**kwargs\<close> at its end: the keyword arguments are written
  over the entries before them, in order.
\<close>

definition dict_merge :: "(string \<times> pyval) list \<Rightarrow> (string \<times> pyval) list \<Rightarrow> (string \<times> pyval) list" where
  "dict_merge base kwargs = fold (\<lambda>(k, v). AList.update k v) kwargs base"

text \<open>\<^verbatim>\<open>if max_tokens is not None: payload["max_tokens"] = max_tokens\<close>\<close>

definition set_opt_int :: "string \<Rightarrow> int option \<Rightarrow> (string \<times> pyval) list \<Rightarrow> (string \<times> pyval) list" where
  "set_opt_int key k d = (case k of None \<Rightarrow> d | Some i \<Rightarrow> AList.update key (PInt i) d)"

definition set_opt_float :: "string \<Rightarrow> real option \<Rightarrow> (string \<times> pyval) list \<Rightarrow> (string \<times> pyval) list" where
  "set_opt_float key t d = (case t of None \<Rightarrow> d | Some x \<Rightarrow> AList.update key (PFloat x) d)"

text \<open>
  The \<open>options\<close> dictionary of a request to the local server, and its attachment to the
  payload when it is not empty.
\<close>

definition ollama_options :: "real option \<Rightarrow> int option \<Rightarrow> (string \<times> pyval) list" where
  "ollama_options temperature max_tokens =
     set_opt_int ''num_predict'' max_tokens (set_opt_float ''temperature'' temperature [])"

definition attach_options :: "(string \<times> pyval) list \<Rightarrow> (string \<times> pyval) list \<Rightarrow> (string \<times> pyval) list" where
  "attach_options options payload =
     (if options \<noteq> [] then AList.update ''options'' (PDict options) payload else payload)"

text \<open>An f-string prints \<^verbatim>\<open>None\<close> as the text \<open>None\<close>.\<close>

definition fstr :: "string option \<Rightarrow> string" where
  "fstr s = (case s of None \<Rightarrow> ''None'' | Some t \<Rightarrow> t)"

text \<open>
  The \<^verbatim>\<open>try\<close> block of \<^verbatim>\<open>AIClient.chat_completion\<close>, after the model name has been
  resolved.
\<close>

definition chat_try ::
  "'w transport \<Rightarrow> AIClient \<Rightarrow> pyval \<Rightarrow> string \<Rightarrow> real option \<Rightarrow> int option
     \<Rightarrow> (string \<times> pyval) list \<Rightarrow> 'w net \<Rightarrow> (pyexn + pyval) \<times> 'w net" where
  "chat_try T c messages model temperature max_tokens kwargs n =
     (if provider c = OPENAI \<and> client c \<noteq> None then
        issue T (SDK ''chat.completions.create''
                   (dict_merge [(''model'', PStr model), (''messages'', messages),
                                (''temperature'', opt_float temperature),
                                (''max_tokens'', opt_int max_tokens)] kwargs)) n
      else if provider c = OPENAI then
        (let url = fstr (base_url c) @ ''/chat/completions'';
             payload = dict_merge [(''model'', PStr model), (''messages'', messages),
                                   (''temperature'', opt_float temperature)] kwargs;
             payload = set_opt_int ''max_tokens'' max_tokens payload
         in issue T (POST url (headers c) (PDict payload)) n)
      else if provider c = DEEPSEEK then
        (let url = fstr (base_url c) @ ''/chat/completions'';
             payload = dict_merge [(''model'', PStr model), (''messages'', messages),
                                   (''temperature'', opt_float temperature)] kwargs;
             payload = set_opt_int ''max_tokens'' max_tokens payload
         in issue T (POST url (headers c) (PDict payload)) n)
      else if provider c = OLLAMA then
        (let url = fstr (base_url c) @ ''/api/chat'';
             payload = [(''model'', PStr model), (''messages'', messages),
                        (''stream'', PBool False)];
             options = ollama_options temperature max_tokens;
             payload = attach_options options payload
         in issue T (POST url (headers c) (PDict payload)) n)
      else (Inr (local_chat_completion messages model temperature max_tokens kwargs), n))"

text \<open>
  \<^verbatim>\<open>AIClient.chat_completion\<close>: the model name is resolved, the \<^verbatim>\<open>try\<close> block runs, and
  the handler \<^verbatim>\<open>except Exception\<close> either substitutes the stub or re-raises with a bare
  \<^verbatim>\<open>raise\<close>. The client is returned next to the result: no branch assigns to a field.
\<close>

definition chat_completion ::
  "'w transport \<Rightarrow> AIClient \<Rightarrow> pyval \<Rightarrow> string option \<Rightarrow> real option \<Rightarrow> int option
     \<Rightarrow> (string \<times> pyval) list \<Rightarrow> 'w net \<Rightarrow> (pyexn + pyval) \<times> AIClient \<times> 'w net" where
  "chat_completion T c messages model temperature max_tokens kwargs n =
     (let m = effective_model Chat c model in
      case chat_try T c messages m temperature max_tokens kwargs n of
        (Inr v, n') \<Rightarrow> (Inr v, c, n')
      | (Inl e, n') \<Rightarrow>
          (if use_local_fallback c \<and> provider c \<noteq> LOCAL
           then (Inr (local_chat_completion messages m temperature max_tokens kwargs), c, n')
           else (Inl e, c, n')))"

text \<open>The \<^verbatim>\<open>try\<close> block of \<^verbatim>\<open>AIClient.text_completion\<close>.\<close>

definition text_try ::
  "'w transport \<Rightarrow> AIClient \<Rightarrow> string \<Rightarrow> string \<Rightarrow> real option \<Rightarrow> int option
     \<Rightarrow> (string \<times> pyval) list \<Rightarrow> 'w net \<Rightarrow> (pyexn + pyval) \<times> 'w net" where
  "text_try T c prompt model temperature max_tokens kwargs n =
     (if provider c = OPENAI \<and> client c \<noteq> None then
        issue T (SDK ''completions.create''
                   (dict_merge [(''model'', PStr model), (''prompt'', PStr prompt),
                                (''temperature'', opt_float temperature),
                                (''max_tokens'', opt_int max_tokens)] kwargs)) n
      else if provider c = OPENAI then
        (let url = fstr (base_url c) @ ''/completions'';
             payload = dict_merge [(''model'', PStr model), (''prompt'', PStr prompt),
                                   (''temperature'', opt_float temperature)] kwargs;
             payload = set_opt_int ''max_tokens'' max_tokens payload
         in issue T (POST url (headers c) (PDict payload)) n)
      else if provider c = DEEPSEEK then
        (let url = fstr (base_url c) @ ''/completions'';
             payload = dict_merge [(''model'', PStr model), (''prompt'', PStr prompt),
                                   (''temperature'', opt_float temperature)] kwargs;
             payload = set_opt_int ''max_tokens'' max_tokens payload
         in issue T (POST url (headers c) (PDict payload)) n)
      else if provider c = OLLAMA then
        (let url = fstr (base_url c) @ ''/api/generate'';
             payload = [(''model'', PStr model), (''prompt'', PStr prompt),
                        (''stream'', PBool False)];
             options = ollama_options temperature max_tokens;
             payload = attach_options options payload
         in issue T (POST url (headers c) (PDict payload)) n)
      else (Inr (local_text_completion prompt model temperature max_tokens kwargs), n))"

text \<open>\<^verbatim>\<open>AIClient.text_completion\<close>\<close>

definition text_completion ::
  "'w transport \<Rightarrow> AIClient \<Rightarrow> string \<Rightarrow> string option \<Rightarrow> real option \<Rightarrow> int option
     \<Rightarrow> (string \<times> pyval) list \<Rightarrow> 'w net \<Rightarrow> (pyexn + pyval) \<times> AIClient \<times> 'w net" where
  "text_completion T c prompt model temperature max_tokens kwargs n =
     (let m = effective_model Text c model in
      case text_try T c prompt m temperature max_tokens kwargs n of
        (Inr v, n') \<Rightarrow> (Inr v, c, n')
      | (Inl e, n') \<Rightarrow>
          (if use_local_fallback c \<and> provider c \<noteq> LOCAL
           then (Inr (local_text_completion prompt m temperature max_tokens kwargs), c, n')
           else (Inl e, c, n')))"

text \<open>
  A step of the \<^verbatim>\<open>try\<close> block that works on the response of a request: an exception of
  the request, or of the step, ends the block.
\<close>

definition then_extract ::
  "(pyexn + pyval) \<times> 'w net \<Rightarrow> (pyval \<Rightarrow> pyexn + pyval) \<Rightarrow> (pyexn + pyval) \<times> 'w net" where
  "then_extract r f = (case r of (res, n') \<Rightarrow> (bind_exn res f, n'))"

text \<open>
  The \<^verbatim>\<open>try\<close> block of \<^verbatim>\<open>AIClient.create_embedding\<close>: the vector is read out of the
  response inside the block.
\<close>

definition embedding_try ::
  "'w transport \<Rightarrow> 'w rng \<Rightarrow> AIClient \<Rightarrow> string \<Rightarrow> string \<Rightarrow> 'w net
     \<Rightarrow> (pyexn + pyval) \<times> 'w net" where
  "embedding_try T R c text model n =
     (if provider c = OPENAI \<and> client c \<noteq> None then
        then_extract
          (issue T (SDK ''embeddings.create'' [(''model'', PStr model), (''input'', PStr text)]) n)
          (\<lambda>response. bind_exn (py_getattr response ''data'') (\<lambda>d.
             bind_exn (py_getitem d (KInt 0)) (\<lambda>d0. py_getattr d0 ''embedding'')))
      else if provider c = OPENAI then
        (let url = fstr (base_url c) @ ''/embeddings'';
             payload = [(''model'', PStr model), (''input'', PStr text)]
         in then_extract (issue T (POST url (headers c) (PDict payload)) n)
              (\<lambda>json. bind_exn (py_getitem json (KStr ''data'')) (\<lambda>d.
                 bind_exn (py_getitem d (KInt 0)) (\<lambda>d0. py_getitem d0 (KStr ''embedding'')))))
      else if provider c = DEEPSEEK then
        (let url = fstr (base_url c) @ ''/embeddings'';
             payload = [(''model'', PStr model), (''input'', PStr text)]
         in then_extract (issue T (POST url (headers c) (PDict payload)) n)
              (\<lambda>json. bind_exn (py_getitem json (KStr ''data'')) (\<lambda>d.
                 bind_exn (py_getitem d (KInt 0)) (\<lambda>d0. py_getitem d0 (KStr ''embedding'')))))
      else if provider c = OLLAMA then
        (let url = fstr (base_url c) @ ''/api/embeddings'';
             payload = [(''model'', PStr model), (''prompt'', PStr text)]
         in then_extract (issue T (POST url (headers c) (PDict payload)) n)
              (\<lambda>json. py_getitem json (KStr ''embedding'')))
      else (case local_embedding R text model n of (xs, n') \<Rightarrow> (Inr (PList (map PFloat xs)), n')))"

text \<open>\<^verbatim>\<open>AIClient.create_embedding\<close>\<close>

definition create_embedding ::
  "'w transport \<Rightarrow> 'w rng \<Rightarrow> AIClient \<Rightarrow> string \<Rightarrow> string option \<Rightarrow> 'w net
     \<Rightarrow> (pyexn + pyval) \<times> AIClient \<times> 'w net" where
  "create_embedding T R c text model n =
     (let m = effective_model Embedding c model in
      case embedding_try T R c text m n of
        (Inr v, n') \<Rightarrow> (Inr v, c, n')
      | (Inl e, n') \<Rightarrow>
          (if use_local_fallback c \<and> provider c \<noteq> LOCAL
           then (case local_embedding R text m n' of
                   (xs, n'') \<Rightarrow> (Inr (PList (map PFloat xs)), c, n''))
           else (Inl e, c, n')))"

text \<open>
  The expression that reads the vector out of the response in each branch of the \<^verbatim>\<open>try\<close>
  block of \<^verbatim>\<open>create_embedding\<close>: \<^verbatim>\<open>response.data[0].embedding\<close> on the response object of
  the client library, \<^verbatim>\<open>response.json()["data"][0]["embedding"]\<close> for OPENAI and DEEPSEEK
  over HTTP, and \<^verbatim>\<open>response.json()["embedding"]\<close> for OLLAMA.
\<close>

definition embedding_lookup :: "AIClient \<Rightarrow> pyval \<Rightarrow> pyexn + pyval" where
  "embedding_lookup c response =
     (if provider c = OPENAI \<and> client c \<noteq> None then
        bind_exn (py_getattr response ''data'') (\<lambda>d.
          bind_exn (py_getitem d (KInt 0)) (\<lambda>d0. py_getattr d0 ''embedding''))
      else if provider c = OPENAI \<or> provider c = DEEPSEEK then
        bind_exn (py_getitem response (KStr ''data'')) (\<lambda>d.
          bind_exn (py_getitem d (KInt 0)) (\<lambda>d0. py_getitem d0 (KStr ''embedding'')))
      else py_getitem response (KStr ''embedding''))"

section \<open>Extraction of the text of a response\<close>

text \<open>
  The \<^verbatim>\<open>try\<close> block of \<^verbatim>\<open>AIClient.get_completion_text\<close>. \<^verbatim>\<open>and\<close> evaluates its right
  operand only when the left one holds, so the key tests run only for the provider and
  the kind of value they are guarded by.
\<close>

definition get_completion_text_try :: "AIClient \<Rightarrow> pyval \<Rightarrow> pyexn + pyval" where
  "get_completion_text_try c response =
     (if provider c = OPENAI \<and> py_hasattr response ''choices'' then
        bind_exn (py_getattr response ''choices'') (\<lambda>ch.
          bind_exn (py_getitem ch (KInt 0)) (\<lambda>c0.
            bind_exn (py_getattr c0 ''message'') (\<lambda>m. py_getattr m ''content'')))
      else
        bind_exn (if provider c = OLLAMA then py_contains ''message'' response else Inr False)
          (\<lambda>has_message.
             if has_message then
               bind_exn (py_getitem response (KStr ''message'')) (\<lambda>m.
                 py_getitem m (KStr ''content''))
             else
               bind_exn (if isinstance_dict response then py_contains ''choices'' response
                         else Inr False)
                 (\<lambda>has_choices.
                    if has_choices then
                      bind_exn (py_getitem response (KStr ''choices'')) (\<lambda>ch.
                        bind_exn (py_getitem ch (KInt 0)) (\<lambda>c0.
                          bind_exn (py_getitem c0 (KStr ''message'')) (\<lambda>m.
                            py_getitem m (KStr ''content''))))
                    else Inr (PStr []))))"

text \<open>
  \<^verbatim>\<open>AIClient.get_completion_text\<close>: a KeyError, IndexError or AttributeError of the block
  becomes the empty string; any other exception leaves the method.
\<close>

definition get_completion_text :: "AIClient \<Rightarrow> pyval \<Rightarrow> pyexn + pyval" where
  "get_completion_text c response =
     (case get_completion_text_try c response of
        Inr v \<Rightarrow> Inr v
      | Inl e \<Rightarrow> (if caught_by_extraction e then Inr (PStr []) else Inl e))"

text \<open>The \<^verbatim>\<open>try\<close> block of \<^verbatim>\<open>AIClient.get_text_completion\<close>.\<close>

definition get_text_completion_try :: "AIClient \<Rightarrow> pyval \<Rightarrow> pyexn + pyval" where
  "get_text_completion_try c response =
     (if provider c = OPENAI \<and> py_hasattr response ''choices'' then
        bind_exn (py_getattr response ''choices'') (\<lambda>ch.
          bind_exn (py_getitem ch (KInt 0)) (\<lambda>c0. py_getattr c0 ''text''))
      else
        bind_exn (if provider c = OLLAMA then py_contains ''response'' response else Inr False)
          (\<lambda>has_response.
             if has_response then py_getitem response (KStr ''response'')
             else
               bind_exn (if isinstance_dict response then py_contains ''choices'' response
                         else Inr False)
                 (\<lambda>has_choices.
                    if has_choices then
                      bind_exn (py_getitem response (KStr ''choices'')) (\<lambda>ch.
                        bind_exn (py_getitem ch (KInt 0)) (\<lambda>c0.
                          py_getitem c0 (KStr ''text'')))
                    else Inr (PStr []))))"

text \<open>\<^verbatim>\<open>AIClient.get_text_completion\<close>\<close>

definition get_text_completion :: "AIClient \<Rightarrow> pyval \<Rightarrow> pyexn + pyval" where
  "get_text_completion c response =
     (case get_text_completion_try c response of
        Inr v \<Rightarrow> Inr v
      | Inl e \<Rightarrow> (if caught_by_extraction e then Inr (PStr []) else Inl e))"

section \<open>Listing the models of the local server\<close>

text \<open>
  \<^verbatim>\<open>d.get(key, default)\<close> exists on dictionaries only; iteration runs over the elements
  of a list, the keys of a dictionary and the characters of a string.
\<close>

fun py_dict_get :: "pyval \<Rightarrow> string \<Rightarrow> pyval \<Rightarrow> pyexn + pyval" where
  "py_dict_get (PDict d) k dflt = Inr (case map_of d k of None \<Rightarrow> dflt | Some v \<Rightarrow> v)"
| "py_dict_get v k dflt = raise_exn ''AttributeError''"

fun py_iter :: "pyval \<Rightarrow> pyexn + pyval list" where
  "py_iter (PList xs) = Inr xs"
| "py_iter (PDict d) = Inr (map (\<lambda>kv. PStr (fst kv)) d)"
| "py_iter (PStr s) = Inr (map (\<lambda>ch. PStr [ch]) s)"
| "py_iter v = raise_exn ''TypeError''"

text \<open>The list comprehension \<^verbatim>\<open>[model["name"] for model in models]\<close>.\<close>

fun model_names :: "pyval list \<Rightarrow> pyexn + pyval list" where
  "model_names [] = Inr []"
| "model_names (m # ms) =
     bind_exn (py_getitem m (KStr ''name'')) (\<lambda>nm.
       bind_exn (model_names ms) (\<lambda>rest. Inr (nm # rest)))"

text \<open>The \<^verbatim>\<open>try\<close> block shared by the two listing methods, for a base URL.\<close>

definition list_models_try :: "'w transport \<Rightarrow> string \<Rightarrow> 'w net \<Rightarrow> (pyexn + pyval) \<times> 'w net" where
  "list_models_try T base n =
     then_extract (issue T (GET (base @ ''/api/tags'')) n)
       (\<lambda>json. bind_exn (py_dict_get json ''models'' (PList [])) (\<lambda>models.
          bind_exn (py_iter models) (\<lambda>ms.
            bind_exn (model_names ms) (\<lambda>names. Inr (PList names)))))"

text \<open>\<^verbatim>\<open>AIClient.list_ollama_models\<close>\<close>

definition list_ollama_models ::
  "'w transport \<Rightarrow> AIClient \<Rightarrow> 'w net \<Rightarrow> (pyexn + pyval) \<times> AIClient \<times> 'w net" where
  "list_ollama_models T c n =
     (if provider c \<noteq> OLLAMA then (Inr (PList []), c, n)
      else
        (case list_models_try T (fstr (base_url c)) n of
           (Inr v, n') \<Rightarrow> (Inr v, c, n')
         | (Inl e, n') \<Rightarrow> (Inr (PList []), c, n')))"

section \<open>The Ollama client\<close>

text \<open>
  The fields of an \<^verbatim>\<open>OllamaClient\<close> of \<^verbatim>\<open>src/demo/ollama_client.py\<close>; the prefix keeps
  them apart from the fields of the unified client.
\<close>

record OllamaClient =
  o_base_url :: string
  o_api_key :: "string option"
  o_headers :: "(string \<times> string) list"

text \<open>
  The loop over the extra keyword arguments: a key that is none of the excluded ones is
  written into the \<open>options\<close> entry of the payload, which is created when it is absent.
  The entry is followed here as a value of its own, \<open>None\<close> while the payload has no
  \<open>options\<close> key.
\<close>

definition add_option ::
  "string list \<Rightarrow> string \<times> pyval \<Rightarrow> (string \<times> pyval) list option \<Rightarrow> (string \<times> pyval) list option" where
  "add_option excluded kv opts =
     (if fst kv \<in> set excluded then opts
      else Some (AList.update (fst kv) (snd kv) (case opts of None \<Rightarrow> [] | Some d \<Rightarrow> d)))"

definition ollama_payload ::
  "string list \<Rightarrow> (string \<times> pyval) list \<Rightarrow> real option \<Rightarrow> int option \<Rightarrow> (string \<times> pyval) list
     \<Rightarrow> (string \<times> pyval) list" where
  "ollama_payload excluded base temperature max_tokens kwargs =
     (let options = ollama_options temperature max_tokens;
          opts = fold (add_option excluded) kwargs (if options \<noteq> [] then Some options else None)
      in case opts of None \<Rightarrow> base | Some d \<Rightarrow> AList.update ''options'' (PDict d) base)"

text \<open>\<^verbatim>\<open>OllamaClient.chat_completion\<close>: the handler prints and re-raises.\<close>

definition ollama_chat_completion ::
  "'w transport \<Rightarrow> OllamaClient \<Rightarrow> pyval \<Rightarrow> string \<Rightarrow> real option \<Rightarrow> int option
     \<Rightarrow> (string \<times> pyval) list \<Rightarrow> 'w net \<Rightarrow> (pyexn + pyval) \<times> 'w net" where
  "ollama_chat_completion T c messages model temperature max_tokens kwargs n =
     (let url = o_base_url c @ ''/api/chat'';
          payload = ollama_payload [''model'', ''messages'', ''stream'', ''options'']
                      [(''model'', PStr model), (''messages'', messages), (''stream'', PBool False)]
                      temperature max_tokens kwargs
      in issue T (POST url (o_headers c) (PDict payload)) n)"

text \<open>\<^verbatim>\<open>OllamaClient.text_completion\<close>\<close>

definition ollama_text_completion ::
  "'w transport \<Rightarrow> OllamaClient \<Rightarrow> string \<Rightarrow> string \<Rightarrow> real option \<Rightarrow> int option
     \<Rightarrow> (string \<times> pyval) list \<Rightarrow> 'w net \<Rightarrow> (pyexn + pyval) \<times> 'w net" where
  "ollama_text_completion T c prompt model temperature max_tokens kwargs n =
     (let url = o_base_url c @ ''/api/generate'';
          payload = ollama_payload [''model'', ''prompt'', ''stream'', ''options'']
                      [(''model'', PStr model), (''prompt'', PStr prompt), (''stream'', PBool False)]
                      temperature max_tokens kwargs
      in issue T (POST url (o_headers c) (PDict payload)) n)"

text \<open>\<^verbatim>\<open>OllamaClient.list_models\<close>\<close>

definition list_models :: "'w transport \<Rightarrow> OllamaClient \<Rightarrow> 'w net \<Rightarrow> (pyexn + pyval) \<times> 'w net" where
  "list_models T c n =
     (case list_models_try T (o_base_url c) n of
        (Inr v, n') \<Rightarrow> (Inr v, n')
      | (Inl e, n') \<Rightarrow> (Inr (PList []), n'))"

section \<open>Example clients, transports and generators\<close>

text \<open>
  Concrete inputs for the closed theorems below: a Transport that refuses every request
  with a connection error, one that answers every request with a given value, a network
  on which nothing has been sent yet, a client as the constructor builds it without a
  base URL of the caller's and without the provider's client library, the OPENAI client
  it builds from a credential when the library is installed, and a generator of
  pseudo-random numbers over a counter.
\<close>

definition connection_error :: pyexn where
  "connection_error = PyExn ''ConnectionError'' None"

definition failing_transport :: "nat transport" where
  "failing_transport r w = (Inl connection_error, w)"

definition answering_transport :: "pyval \<Rightarrow> nat transport" where
  "answering_transport v r w = (Inr v, w)"

definition net0 :: "nat net" where
  "net0 = \<lparr>world = 0, sent = []\<rparr>"

definition example_client :: "AIProvider \<Rightarrow> string option \<Rightarrow> bool \<Rightarrow> AIClient" where
  "example_client p key fallback =
     \<lparr>provider = p, use_local_fallback = fallback,
      api_key = (case p of LOCAL \<Rightarrow> None | _ \<Rightarrow> key),
      base_url = (case p of OPENAI \<Rightarrow> Some ''https://api.openai.com/v1''
                  | DEEPSEEK \<Rightarrow> Some ''https://api.deepseek.com/v1''
                  | OLLAMA \<Rightarrow> Some ''http://localhost:11434'' | LOCAL \<Rightarrow> None),
      client = None,
      headers = make_headers (case p of LOCAL \<Rightarrow> None | _ \<Rightarrow> key)\<rparr>"

definition library_client :: AIClient where
  "library_client =
     \<lparr>provider = OPENAI, use_local_fallback = True, api_key = Some ''sk-test'',
      base_url = Some ''https://api.openai.com/v1'', client = Some ''sk-test'',
      headers = make_headers (Some ''sk-test'')\<rparr>"

definition example_ollama :: OllamaClient where
  "example_ollama =
     \<lparr>o_base_url = ''http://localhost:11434'', o_api_key = None,
      o_headers = [(''Content-Type'', ''application/json'')]\<rparr>"

definition example_rng :: "nat rng" where
  "example_rng w = (real (w mod 10) / 10, w + 7)"

definition hello_messages :: pyval where
  "hello_messages = PList [PDict [(''role'', PStr ''user''), (''content'', PStr ''hi'')]]"

section \<open>Auxiliary facts\<close>

lemma map_of_dict_merge:
  "k \<notin> fst ` set kwargs \<Longrightarrow> map_of (dict_merge base kwargs) k = map_of base k"
  unfolding dict_merge_def
  by (induction kwargs arbitrary: base) (auto simp: update_conv')

lemma fst_issue: "fst (issue T r n) = fst (T r (world n))"
  by (cases "T r (world n)") (simp add: issue_def)

lemma sent_issue: "sent (snd (issue T r n)) = sent n @ [r]"
  by (cases "T r (world n)") (simp add: issue_def)

lemma fst_then_extract: "fst (then_extract r f) = bind_exn (fst r) f"
  by (cases r) (simp add: then_extract_def)

lemma draws_length: "length (fst (draws R k w)) = k"
proof (induction k arbitrary: w)
  case 0
  show ?case by simp
next
  case (Suc k)
  obtain x w' where r: "R w = (x, w')" by (cases "R w")
  obtain xs w'' where d: "draws R k w' = (xs, w'')" by (cases "draws R k w'")
  have "length xs = k" using Suc [of w'] d by simp
  then show ?case using r d by simp
qed

lemma draws_all:
  assumes "\<And>w. P (fst (R w))"
  shows "list_all P (fst (draws R k w))"
proof (induction k arbitrary: w)
  case 0
  show ?case by simp
next
  case (Suc k)
  obtain x w' where r: "R w = (x, w')" by (cases "R w")
  obtain xs w'' where d: "draws R k w' = (xs, w'')" by (cases "draws R k w'")
  have "P x" using assms [of w] r by simp
  moreover have "list_all P xs" using Suc [of w'] d by simp
  ultimately show ?case using r d by simp
qed

lemma local_embedding_length: "length (fst (local_embedding R text model n)) = 1536"
proof -
  obtain xs w' where d: "draws R 1536 (world n) = (xs, w')" by (cases "draws R 1536 (world n)")
  have "length xs = 1536" using draws_length [of R 1536 "world n"] d by simp
  then show ?thesis using d by (simp add: local_embedding_def)
qed

lemma list_index_0: "list_index [] 0 = None" "list_index (x # xs) 0 = Some x"
  by (simp_all add: list_index_def)

lemma py_getitem_exn:
  "py_getitem v k = Inl e \<Longrightarrow>
     exn_class e = ''KeyError'' \<or> exn_class e = ''IndexError'' \<or> exn_class e = ''TypeError''"
  by (cases "(v, k)" rule: py_getitem.cases) (auto split: option.splits)

lemma py_getattr_exn: "py_getattr v a = Inl e \<Longrightarrow> exn_class e = ''AttributeError''"
  by (cases "(v, a)" rule: py_getattr.cases) (auto split: option.splits)

section \<open>Construction\<close>

text \<open>
  Claim C3. Construction raises the configuration error (a ValueError) exactly when the
  provider is OPENAI or DEEPSEEK, neither the \<open>api_key\<close> argument nor the provider's
  environment variable holds a non-empty credential, and fallback is disabled. It raises
  nothing else once the provider argument denotes an identity, and in every other case it
  returns a client of that identity; for OLLAMA and LOCAL it always returns a client.
\<close>

theorem init_fails_iff:
  assumes "AIProvider_of parg = Inr p"
  shows "(AIClient_init environ sdk parg key url fallback = raise_exn ''ValueError'')
           = (((p = OPENAI \<and> \<not> truthy key \<and> \<not> truthy (environ ''OPENAI_API_KEY''))
               \<or> (p = DEEPSEEK \<and> \<not> truthy key \<and> \<not> truthy (environ ''DEEPSEEK_API_KEY'')))
              \<and> \<not> fallback)
         \<and> ((\<exists>e. AIClient_init environ sdk parg key url fallback = Inl e)
              = (AIClient_init environ sdk parg key url fallback = raise_exn ''ValueError''))
         \<and> ((\<exists>c. AIClient_init environ sdk parg key url fallback = Inr c \<and> provider c = p)
              = (AIClient_init environ sdk parg key url fallback \<noteq> raise_exn ''ValueError''))
         \<and> (p = OLLAMA \<or> p = LOCAL \<longrightarrow>
              (\<exists>c. AIClient_init environ sdk parg key url fallback = Inr c))"
  using assms
  by (cases p) (auto simp: AIClient_init_def bind_exn_def py_or_def Let_def)

theorem init_fails_iff_witness:
  "AIProvider_of (Named ''deepseek'') = Inr DEEPSEEK
   \<and> AIClient_init Map.empty False (Named ''deepseek'') None None False = raise_exn ''ValueError''
   \<and> AIClient_init Map.empty False (Named ''deepseek'') None None True \<noteq> raise_exn ''ValueError''"
  using init_fails_iff [of "Named ''deepseek''" DEEPSEEK Map.empty False None None False]
        init_fails_iff [of "Named ''deepseek''" DEEPSEEK Map.empty False None None True]
  by (simp add: AIProvider_of_def truthy_def)

section \<open>Failure of the provider call\<close>

text \<open>
  For every provider but LOCAL each operation issues one request, so an exception of the
  Transport is an exception of the \<^verbatim>\<open>try\<close> block.
\<close>

lemma transport_failure_raises:
  assumes "provider c \<noteq> LOCAL" and "\<And>r. fst (T r (world n)) = Inl e"
  shows "fst (chat_try T c messages m temperature max_tokens kwargs n) = Inl e"
    and "fst (text_try T c prompt m temperature max_tokens kwargs n) = Inl e"
    and "fst (embedding_try T R c text m n) = Inl e"
  using assms
  by (cases "provider c";
      simp add: chat_try_def text_try_def embedding_try_def Let_def fst_issue fst_then_extract
                bind_exn_def)+

text \<open>
  Claim C1. When the provider call of an operation raises (the \<^verbatim>\<open>try\<close> block ends in an
  exception), fallback is enabled and the provider is not LOCAL, the operation returns
  what the Offline-Stub method returns for the same arguments and the resolved model
  name; nothing is raised.
\<close>

theorem fallback_substitutes_stub:
  assumes "use_local_fallback c" and "provider c \<noteq> LOCAL"
  shows "(fst (chat_try T c messages (effective_model Chat c model) temperature max_tokens kwargs n) = Inl e
            \<longrightarrow> fst (chat_completion T c messages model temperature max_tokens kwargs n)
                  = Inr (local_chat_completion messages (effective_model Chat c model)
                           temperature max_tokens kwargs))
       \<and> (fst (text_try T c prompt (effective_model Text c model) temperature max_tokens kwargs n) = Inl e
            \<longrightarrow> fst (text_completion T c prompt model temperature max_tokens kwargs n)
                  = Inr (local_text_completion prompt (effective_model Text c model)
                           temperature max_tokens kwargs))
       \<and> (fst (embedding_try T R c text (effective_model Embedding c model) n) = Inl e
            \<longrightarrow> fst (create_embedding T R c text model n)
                  = Inr (PList (map PFloat (fst (local_embedding R text (effective_model Embedding c model)
                           (snd (embedding_try T R c text (effective_model Embedding c model) n)))))))"
  using assms
  by (auto simp: chat_completion_def text_completion_def create_embedding_def Let_def
           split: prod.splits sum.splits)

theorem fallback_substitutes_stub_witness:
  "use_local_fallback (example_client OPENAI None True)
   \<and> provider (example_client OPENAI None True) \<noteq> LOCAL
   \<and> fst (text_try failing_transport (example_client OPENAI None True) ''poem''
            ''gpt-3.5-turbo-instruct'' (Some 0.7) None [] net0) = Inl connection_error
   \<and> fst (text_completion failing_transport (example_client OPENAI None True) ''poem''
            None (Some 0.7) None [] net0)
       = Inr (local_text_completion ''poem'' ''gpt-3.5-turbo-instruct'' (Some 0.7) None [])"
  using fallback_substitutes_stub [of "example_client OPENAI None True" failing_transport
          hello_messages None "Some 0.7" None "[]" net0 connection_error "''poem''" example_rng "''poem''"]
  by (simp add: example_client_def effective_model_def default_model_def text_try_def
                issue_def failing_transport_def Let_def)

text \<open>
  Claim C2, as stated, at a concrete input: a DEEPSEEK client with a credential and with
  fallback disabled, on a Transport that raises a connection error. What reaches the
  caller is the connection error itself: its class is not a provider-call failure and it
  has no cause.
\<close>

theorem provider_call_failed_counterexample:
  "AIClient_init Map.empty False (Member DEEPSEEK) (Some ''sk-test'') None False
     = Inr (example_client DEEPSEEK (Some ''sk-test'') False)
   \<and> fst (chat_completion failing_transport (example_client DEEPSEEK (Some ''sk-test'') False)
            hello_messages None (Some 0.7) None [] net0) = Inl connection_error
   \<and> exn_class connection_error \<noteq> ''ProviderCallFailed''
   \<and> exn_cause connection_error \<noteq> Some connection_error"
  by (simp add: AIClient_init_def AIProvider_of_def bind_exn_def py_or_def truthy_def
                make_headers_def example_client_def chat_completion_def chat_try_def
                effective_model_def default_model_def issue_def failing_transport_def
                connection_error_def Let_def)

text \<open>
  Claim C2, amended. When the \<^verbatim>\<open>try\<close> block of an operation raises and fallback is
  disabled, the operation raises that same exception, unchanged and unwrapped.
\<close>

theorem failure_reraised:
  assumes "\<not> use_local_fallback c"
  shows "(fst (chat_try T c messages (effective_model Chat c model) temperature max_tokens kwargs n) = Inl e
            \<longrightarrow> fst (chat_completion T c messages model temperature max_tokens kwargs n) = Inl e)
       \<and> (fst (text_try T c prompt (effective_model Text c model) temperature max_tokens kwargs n) = Inl e
            \<longrightarrow> fst (text_completion T c prompt model temperature max_tokens kwargs n) = Inl e)
       \<and> (fst (embedding_try T R c text (effective_model Embedding c model) n) = Inl e
            \<longrightarrow> fst (create_embedding T R c text model n) = Inl e)"
  using assms
  by (auto simp: chat_completion_def text_completion_def create_embedding_def Let_def
           split: prod.splits sum.splits)

theorem failure_reraised_witness:
  "\<not> use_local_fallback (example_client OLLAMA None False)
   \<and> fst (embedding_try failing_transport example_rng (example_client OLLAMA None False) ''poem''
            ''llama2'' net0) = Inl connection_error
   \<and> fst (create_embedding failing_transport example_rng (example_client OLLAMA None False)
            ''poem'' None net0) = Inl connection_error"
  using failure_reraised [of "example_client OLLAMA None False" failing_transport
          hello_messages None "Some 0.7" None "[]" net0 connection_error "''poem''" example_rng "''poem''"]
  by (simp add: example_client_def effective_model_def default_model_def embedding_try_def
                then_extract_def bind_exn_def issue_def failing_transport_def Let_def)

section \<open>The effective model name\<close>

lemma default_model_per_provider: "p \<noteq> q \<Longrightarrow> default_model opn p \<noteq> default_model opn q"
  by (cases p; cases q; cases opn; simp add: default_model_def)

lemma effective_model_idem:
  "effective_model opn c (Some (effective_model opn c model)) = effective_model opn c model"
  by (simp add: effective_model_def)

text \<open>
  Claim C6, as stated, at a concrete input: for the OLLAMA client the constructor builds,
  the defaults of the three operations are not distinct (all three are \<open>llama2\<close>).
\<close>

theorem distinct_defaults_counterexample:
  "AIClient_init Map.empty False (Member OLLAMA) None None True = Inr (example_client OLLAMA None True)
   \<and> \<not> distinct [effective_model Chat (example_client OLLAMA None True) None,
                   effective_model Text (example_client OLLAMA None True) None,
                   effective_model Embedding (example_client OLLAMA None True) None]"
  by (simp add: AIClient_init_def AIProvider_of_def bind_exn_def py_or_def truthy_def
                make_headers_def example_client_def effective_model_def default_model_def)

text \<open>
  Claim C6, amended. An explicit model argument is the effective model name; without one
  the name is the default of the operation and the provider, and each operation runs as
  if that name had been passed. The three defaults are pairwise distinct for OPENAI and
  DEEPSEEK; OLLAMA uses \<open>llama2\<close> for all three operations, and LOCAL uses
  \<open>local-model\<close> for chat and text and \<open>local-embedding\<close> for embeddings. For every
  operation, different providers have different defaults.
\<close>

theorem effective_model_resolution:
  "effective_model opn c (Some m) = m
   \<and> effective_model opn c None = default_model opn (provider c)
   \<and> (provider c = OPENAI \<or> provider c = DEEPSEEK \<longrightarrow>
        distinct [effective_model Chat c None, effective_model Text c None,
                  effective_model Embedding c None])
   \<and> (provider c = OLLAMA \<longrightarrow> effective_model opn c None = ''llama2'')
   \<and> (provider c = LOCAL \<longrightarrow>
        effective_model Chat c None = ''local-model''
        \<and> effective_model Text c None = ''local-model''
        \<and> effective_model Embedding c None = ''local-embedding'')
   \<and> (p \<noteq> q \<longrightarrow> default_model opn p \<noteq> default_model opn q)
   \<and> chat_completion T c messages model temperature max_tokens kwargs n
       = chat_completion T c messages (Some (effective_model Chat c model)) temperature max_tokens kwargs n
   \<and> text_completion T c prompt model temperature max_tokens kwargs n
       = text_completion T c prompt (Some (effective_model Text c model)) temperature max_tokens kwargs n
   \<and> create_embedding T R c text model n
       = create_embedding T R c text (Some (effective_model Embedding c model)) n"
proof -
  have a: "effective_model opn c (Some m) = m" by (simp add: effective_model_def)
  have b: "effective_model opn c None = default_model opn (provider c)"
    by (simp add: effective_model_def)
  have c3: "provider c = OPENAI \<or> provider c = DEEPSEEK \<longrightarrow>
        distinct [effective_model Chat c None, effective_model Text c None,
                  effective_model Embedding c None]"
    by (auto simp: effective_model_def default_model_def)
  have d: "provider c = OLLAMA \<longrightarrow> effective_model opn c None = ''llama2''"
    by (cases opn) (simp_all add: effective_model_def default_model_def)
  have e: "provider c = LOCAL \<longrightarrow>
        effective_model Chat c None = ''local-model''
        \<and> effective_model Text c None = ''local-model''
        \<and> effective_model Embedding c None = ''local-embedding''"
    by (simp add: effective_model_def default_model_def)
  have f: "p \<noteq> q \<longrightarrow> default_model opn p \<noteq> default_model opn q"
    using default_model_per_provider by blast
  have g: "chat_completion T c messages model temperature max_tokens kwargs n
       = chat_completion T c messages (Some (effective_model Chat c model)) temperature max_tokens kwargs n"
    by (simp add: chat_completion_def effective_model_idem)
  have h: "text_completion T c prompt model temperature max_tokens kwargs n
       = text_completion T c prompt (Some (effective_model Text c model)) temperature max_tokens kwargs n"
    by (simp add: text_completion_def effective_model_idem)
  have i: "create_embedding T R c text model n
       = create_embedding T R c text (Some (effective_model Embedding c model)) n"
    by (simp add: create_embedding_def effective_model_idem)
  show ?thesis using a b c3 d e f g h i by blast
qed

theorem effective_model_resolution_witness:
  "provider (example_client DEEPSEEK (Some ''sk-test'') True) = DEEPSEEK
   \<and> effective_model Text (example_client DEEPSEEK (Some ''sk-test'') True) (Some ''my-model'') = ''my-model''
   \<and> effective_model Text (example_client DEEPSEEK (Some ''sk-test'') True) None = ''deepseek-coder''
   \<and> distinct [effective_model Chat (example_client DEEPSEEK (Some ''sk-test'') True) None,
               effective_model Text (example_client DEEPSEEK (Some ''sk-test'') True) None,
               effective_model Embedding (example_client DEEPSEEK (Some ''sk-test'') True) None]
   \<and> OPENAI \<noteq> DEEPSEEK \<and> default_model Text OPENAI \<noteq> default_model Text DEEPSEEK"
  using effective_model_resolution [of Text "example_client DEEPSEEK (Some ''sk-test'') True"
          "''my-model''" OPENAI DEEPSEEK failing_transport hello_messages None "Some 0.7" None "[]"
          net0 "''poem''" example_rng "''poem''"]
  by (simp add: example_client_def default_model_def effective_model_def)

section \<open>The embedding of the Offline-Stub\<close>

lemma example_rng_range: "0 \<le> fst (example_rng w) \<and> fst (example_rng w) < 1"
proof -
  have "w mod 10 < 10" by simp
  then have "real (w mod 10) < 10" by (metis of_nat_less_iff of_nat_numeral)
  then show ?thesis by (simp add: example_rng_def)
qed

text \<open>
  Claim C7. For every text and model name, \<^verbatim>\<open>_local_embedding\<close> returns exactly 1536
  numbers, each at least 0 and below 1, given that each call of \<^verbatim>\<open>random.random()\<close>
  returns a number in that interval, as the library documents.
\<close>

theorem local_embedding_range:
  assumes "\<And>w. 0 \<le> fst (R w) \<and> fst (R w) < 1"
  shows "length (fst (local_embedding R text model n)) = 1536
         \<and> list_all (\<lambda>x. 0 \<le> x \<and> x < 1) (fst (local_embedding R text model n))"
proof -
  obtain xs w' where d: "draws R 1536 (world n) = (xs, w')" by (cases "draws R 1536 (world n)")
  have "length xs = 1536" using draws_length [of R 1536 "world n"] d by simp
  moreover have "list_all (\<lambda>x. 0 \<le> x \<and> x < 1) xs"
    using draws_all [of "\<lambda>x. 0 \<le> x \<and> x < 1" R 1536 "world n"] assms d by simp
  ultimately show ?thesis using d by (simp add: local_embedding_def)
qed

theorem local_embedding_range_witness:
  "length (fst (local_embedding example_rng ''hello'' ''local-embedding'' net0)) = 1536
   \<and> list_all (\<lambda>x. 0 \<le> x \<and> x < 1) (fst (local_embedding example_rng ''hello'' ''local-embedding'' net0))"
  using local_embedding_range [of example_rng "''hello''" "''local-embedding''" net0] example_rng_range
  by simp

section \<open>A response of the wrong shape in \<^verbatim>\<open>create_embedding\<close>\<close>

lemma embedding_try_lookup:
  assumes "provider c \<noteq> LOCAL" and "\<And>r. fst (T r (world n)) = Inr j"
  shows "fst (embedding_try T R c text m n) = embedding_lookup c j"
  using assms
  by (cases "provider c")
     (simp_all add: embedding_try_def embedding_lookup_def Let_def fst_then_extract fst_issue
                    bind_exn_def)

lemma embedding_lookup_exn:
  "embedding_lookup c j = Inl e \<Longrightarrow>
     exn_class e = ''KeyError'' \<or> exn_class e = ''IndexError'' \<or> exn_class e = ''TypeError''
     \<or> exn_class e = ''AttributeError''"
  by (auto simp: embedding_lookup_def bind_exn_def split: if_splits sum.splits
           dest!: py_getitem_exn py_getattr_exn)

lemma embedding_lookup_mismatch:
  "provider c = OLLAMA \<Longrightarrow> map_of d ''embedding'' = None
     \<Longrightarrow> embedding_lookup c (PDict d) = raise_exn ''KeyError''"
  "provider c = OLLAMA \<Longrightarrow> embedding_lookup c (PList xs) = raise_exn ''TypeError''"
  "provider c = DEEPSEEK \<or> (provider c = OPENAI \<and> client c = None) \<Longrightarrow> map_of d ''data'' = None
     \<Longrightarrow> embedding_lookup c (PDict d) = raise_exn ''KeyError''"
  "provider c = DEEPSEEK \<or> (provider c = OPENAI \<and> client c = None)
     \<Longrightarrow> map_of d ''data'' = Some (PList [])
     \<Longrightarrow> embedding_lookup c (PDict d) = raise_exn ''IndexError''"
  "provider c = DEEPSEEK \<or> (provider c = OPENAI \<and> client c = None)
     \<Longrightarrow> map_of d ''data'' = Some (PList (PDict d0 # rest)) \<Longrightarrow> map_of d0 ''embedding'' = None
     \<Longrightarrow> embedding_lookup c (PDict d) = raise_exn ''KeyError''"
  "provider c = DEEPSEEK \<or> (provider c = OPENAI \<and> client c = None)
     \<Longrightarrow> embedding_lookup c (PList xs) = raise_exn ''TypeError''"
  "provider c = OPENAI \<and> client c \<noteq> None \<Longrightarrow> map_of fs ''data'' = None
     \<Longrightarrow> embedding_lookup c (PObj fs) = raise_exn ''AttributeError''"
  "provider c = OPENAI \<and> client c \<noteq> None \<Longrightarrow> map_of fs ''data'' = Some (PList [])
     \<Longrightarrow> embedding_lookup c (PObj fs) = raise_exn ''IndexError''"
  by (auto simp: embedding_lookup_def bind_exn_def list_index_0)

text \<open>
  Claim C5, as stated, at a concrete input: an OLLAMA client with fallback disabled
  receives a JSON object without the key \<open>embedding\<close>. The KeyError of the lookup leaves
  \<^verbatim>\<open>create_embedding\<close>; the result is not an empty list.
\<close>

theorem embedding_shape_counterexample:
  "AIClient_init Map.empty False (Member OLLAMA) None None False
     = Inr (example_client OLLAMA None False)
   \<and> fst (create_embedding (answering_transport (PDict [(''error'', PStr ''model not found'')]))
            example_rng (example_client OLLAMA None False) ''hello'' None net0)
       = raise_exn ''KeyError''
   \<and> fst (create_embedding (answering_transport (PDict [(''error'', PStr ''model not found'')]))
            example_rng (example_client OLLAMA None False) ''hello'' None net0)
       \<noteq> Inr (PList [])"
  by (simp add: AIClient_init_def AIProvider_of_def bind_exn_def py_or_def truthy_def
                make_headers_def example_client_def create_embedding_def embedding_try_def
                then_extract_def effective_model_def default_model_def issue_def
                answering_transport_def Let_def)

text \<open>
  Claim C5, amended. When the shape of an embedding response does not match, so that
  reading the vector out of it raises (a missing key such as \<open>embedding\<close> or \<open>data\<close>, an
  empty \<open>data\<close> list, a value on the path that cannot be subscripted, a missing attribute
  of the client library's response object), the exception is handled like any other
  failure of the provider call: with fallback enabled \<^verbatim>\<open>create_embedding\<close> returns the
  Offline-Stub's vector of 1536 numbers, and with fallback disabled that exception is
  raised to the caller. When every step of the path succeeds, the value found is returned
  as it is, whatever it is. An empty list is returned only when the response itself holds
  one; the recovery never produces it.
\<close>

theorem embedding_shape_mismatch:
  assumes "provider c \<noteq> LOCAL" and "\<And>r. fst (T r (world n)) = Inr j"
  shows "(\<forall>e. embedding_lookup c j = Inl e \<and> use_local_fallback c \<longrightarrow>
            (\<exists>xs. fst (create_embedding T R c text model n) = Inr (PList (map PFloat xs))
                  \<and> length xs = 1536))
         \<and> (\<forall>e. embedding_lookup c j = Inl e \<and> \<not> use_local_fallback c \<longrightarrow>
              fst (create_embedding T R c text model n) = Inl e)
         \<and> (\<forall>v. embedding_lookup c j = Inr v \<longrightarrow>
              fst (create_embedding T R c text model n) = Inr v)
         \<and> (fst (create_embedding T R c text model n) = Inr (PList []) \<longrightarrow>
              embedding_lookup c j = Inr (PList []))"
proof -
  let ?m = "effective_model Embedding c model"
  obtain res n' where tn: "embedding_try T R c text ?m n = (res, n')"
    by (cases "embedding_try T R c text ?m n")
  have res: "res = embedding_lookup c j"
    using embedding_try_lookup [of c T n j R "text" "?m"] assms tn by simp
  obtain xs n'' where le: "local_embedding R text ?m n' = (xs, n'')"
    by (cases "local_embedding R text ?m n'")
  have len: "length xs = 1536" using local_embedding_length [of R "text" "?m" "n'"] le by simp
  have a: "\<forall>e. embedding_lookup c j = Inl e \<and> use_local_fallback c \<longrightarrow>
            (\<exists>xs. fst (create_embedding T R c text model n) = Inr (PList (map PFloat xs))
                  \<and> length xs = 1536)"
    using tn res assms(1) le len by (auto simp: create_embedding_def Let_def)
  have b: "\<forall>e. embedding_lookup c j = Inl e \<and> \<not> use_local_fallback c \<longrightarrow>
              fst (create_embedding T R c text model n) = Inl e"
    using tn res by (auto simp: create_embedding_def Let_def)
  have c3: "\<forall>v. embedding_lookup c j = Inr v \<longrightarrow>
              fst (create_embedding T R c text model n) = Inr v"
    using tn res by (auto simp: create_embedding_def Let_def)
  have d: "fst (create_embedding T R c text model n) = Inr (PList []) \<longrightarrow>
              embedding_lookup c j = Inr (PList [])"
  proof (cases "embedding_lookup c j")
    case (Inr v)
    then show ?thesis using c3 by simp
  next
    case (Inl e)
    show ?thesis
    proof (cases "use_local_fallback c")
      case True
      then obtain ys where "fst (create_embedding T R c text model n) = Inr (PList (map PFloat ys))"
        and "length ys = 1536" using a Inl by blast
      then show ?thesis by auto
    next
      case False
      then have "fst (create_embedding T R c text model n) = Inl e" using b Inl by blast
      then show ?thesis by simp
    qed
  qed
  show ?thesis using a b c3 d by blast
qed

theorem embedding_shape_mismatch_witness:
  "provider (example_client DEEPSEEK (Some ''sk-test'') False) \<noteq> LOCAL
   \<and> embedding_lookup (example_client DEEPSEEK (Some ''sk-test'') False)
         (PDict [(''data'', PList [])]) = raise_exn ''IndexError''
   \<and> \<not> use_local_fallback (example_client DEEPSEEK (Some ''sk-test'') False)
   \<and> fst (create_embedding (answering_transport (PDict [(''data'', PList [])])) example_rng
            (example_client DEEPSEEK (Some ''sk-test'') False) ''hello'' None net0)
       = raise_exn ''IndexError''
   \<and> embedding_lookup (example_client OLLAMA None True) (PDict [(''embedding'', PNone)]) = Inr PNone
   \<and> fst (create_embedding (answering_transport (PDict [(''embedding'', PNone)])) example_rng
            (example_client OLLAMA None True) ''hello'' None net0)
       = Inr PNone"
  using embedding_shape_mismatch [of "example_client DEEPSEEK (Some ''sk-test'') False"
          "answering_transport (PDict [(''data'', PList [])])" net0 "PDict [(''data'', PList [])]"
          example_rng "''hello''" None]
        embedding_shape_mismatch [of "example_client OLLAMA None True"
          "answering_transport (PDict [(''embedding'', PNone)])" net0 "PDict [(''embedding'', PNone)]"
          example_rng "''hello''" None]
  by (simp add: example_client_def answering_transport_def embedding_lookup_def bind_exn_def
                list_index_0)

section \<open>The client is not changed by a call\<close>

text \<open>
  Claim C9. After \<^verbatim>\<open>chat_completion\<close>, \<^verbatim>\<open>text_completion\<close>, \<^verbatim>\<open>create_embedding\<close> or
  \<^verbatim>\<open>list_ollama_models\<close>, whatever the Transport did and whether the call returned or
  raised, the client is the client the call started with: its provider, credential,
  base URL, headers and fallback flag are unchanged.
\<close>

theorem client_unchanged:
  "fst (snd (chat_completion T c messages model temperature max_tokens kwargs n)) = c
   \<and> fst (snd (text_completion T c prompt model temperature max_tokens kwargs n)) = c
   \<and> fst (snd (create_embedding T R c text model n)) = c
   \<and> fst (snd (list_ollama_models T c n)) = c"
  by (auto simp: chat_completion_def text_completion_def create_embedding_def
                 list_ollama_models_def Let_def split: prod.splits sum.splits)

theorem client_unchanged_witness:
  "fst (snd (chat_completion failing_transport (example_client DEEPSEEK (Some ''sk-test'') False)
               hello_messages None (Some 0.7) None [] net0))
     = example_client DEEPSEEK (Some ''sk-test'') False
   \<and> fst (snd (list_ollama_models failing_transport
                  (example_client DEEPSEEK (Some ''sk-test'') False) net0))
       = example_client DEEPSEEK (Some ''sk-test'') False"
  using client_unchanged [of failing_transport "example_client DEEPSEEK (Some ''sk-test'') False"
          hello_messages None "Some 0.7" None "[]" net0 "''poem''" example_rng "''poem''"]
  by simp

section \<open>Listing the models\<close>

text \<open>
  Claim C10. For a client whose provider is not OLLAMA, \<^verbatim>\<open>list_ollama_models\<close> returns
  the empty list at once: the network is as it was, so no request has been issued. For
  an OLLAMA client it never raises, and it returns the empty list whenever the Transport
  raises or the response cannot be read (any exception of the \<^verbatim>\<open>try\<close> block, for example
  a response that is not a JSON object). \<^verbatim>\<open>OllamaClient.list_models\<close> behaves the same.
\<close>

theorem list_models_never_raises:
  "(provider c \<noteq> OLLAMA \<longrightarrow> list_ollama_models T c n = (Inr (PList []), c, n))
   \<and> (\<exists>v. fst (list_ollama_models T c n) = Inr v)
   \<and> (provider c = OLLAMA \<longrightarrow>
        (\<forall>e. fst (list_models_try T (fstr (base_url c)) n) = Inl e
              \<longrightarrow> fst (list_ollama_models T c n) = Inr (PList [])))
   \<and> (provider c = OLLAMA \<longrightarrow>
        (\<forall>e. fst (T (GET (fstr (base_url c) @ ''/api/tags'')) (world n)) = Inl e
              \<longrightarrow> fst (list_ollama_models T c n) = Inr (PList [])))
   \<and> (provider c = OLLAMA \<longrightarrow>
        (\<forall>j. fst (T (GET (fstr (base_url c) @ ''/api/tags'')) (world n)) = Inr j
              \<and> \<not> isinstance_dict j
              \<longrightarrow> fst (list_ollama_models T c n) = Inr (PList [])))
   \<and> (\<exists>v. fst (list_models T oc n) = Inr v)
   \<and> (\<forall>e. fst (list_models_try T (o_base_url oc) n) = Inl e
            \<longrightarrow> fst (list_models T oc n) = Inr (PList []))"
proof -
  have tr: "fst (T (GET (b @ ''/api/tags'')) (world n)) = Inl e
            \<Longrightarrow> fst (list_models_try T b n) = Inl e" for b e
    by (simp add: list_models_try_def fst_then_extract fst_issue bind_exn_def)
  have pj: "fst (T (GET (b @ ''/api/tags'')) (world n)) = Inr j \<Longrightarrow> \<not> isinstance_dict j
            \<Longrightarrow> fst (list_models_try T b n) = raise_exn ''AttributeError''" for b j
    by (cases j)
       (simp_all add: list_models_try_def fst_then_extract fst_issue bind_exn_def)
  have a: "provider c \<noteq> OLLAMA \<longrightarrow> list_ollama_models T c n = (Inr (PList []), c, n)"
    by (simp add: list_ollama_models_def)
  have b: "\<exists>v. fst (list_ollama_models T c n) = Inr v"
    by (auto simp: list_ollama_models_def split: prod.splits sum.splits)
  have c1: "provider c = OLLAMA \<longrightarrow>
        (\<forall>e. fst (list_models_try T (fstr (base_url c)) n) = Inl e
              \<longrightarrow> fst (list_ollama_models T c n) = Inr (PList []))"
    by (auto simp: list_ollama_models_def split: prod.splits sum.splits)
  have c2: "provider c = OLLAMA \<longrightarrow>
        (\<forall>e. fst (T (GET (fstr (base_url c) @ ''/api/tags'')) (world n)) = Inl e
              \<longrightarrow> fst (list_ollama_models T c n) = Inr (PList []))"
    using c1 tr by blast
  have c3: "provider c = OLLAMA \<longrightarrow>
        (\<forall>j. fst (T (GET (fstr (base_url c) @ ''/api/tags'')) (world n)) = Inr j
              \<and> \<not> isinstance_dict j
              \<longrightarrow> fst (list_ollama_models T c n) = Inr (PList []))"
    using c1 pj by blast
  have d: "\<exists>v. fst (list_models T oc n) = Inr v"
    by (auto simp: list_models_def split: prod.splits sum.splits)
  have e: "\<forall>e. fst (list_models_try T (o_base_url oc) n) = Inl e
            \<longrightarrow> fst (list_models T oc n) = Inr (PList [])"
    by (auto simp: list_models_def split: prod.splits sum.splits)
  show ?thesis using a b c1 c2 c3 d e by blast
qed

theorem list_models_never_raises_witness:
  "provider (example_client DEEPSEEK (Some ''sk-test'') True) \<noteq> OLLAMA
   \<and> list_ollama_models failing_transport (example_client DEEPSEEK (Some ''sk-test'') True) net0
       = (Inr (PList []), example_client DEEPSEEK (Some ''sk-test'') True, net0)
   \<and> provider (example_client OLLAMA None True) = OLLAMA
   \<and> fst (failing_transport (GET (fstr (base_url (example_client OLLAMA None True)) @ ''/api/tags''))
            (world net0)) = Inl connection_error
   \<and> fst (list_ollama_models failing_transport (example_client OLLAMA None True) net0)
       = Inr (PList [])"
  using list_models_never_raises [of "example_client DEEPSEEK (Some ''sk-test'') True"
          failing_transport net0 example_ollama]
        list_models_never_raises [of "example_client OLLAMA None True"
          failing_transport net0 example_ollama]
  by (simp add: example_client_def failing_transport_def)

section \<open>A response without the text\<close>

lemma get_completion_text_try_dict:
  "get_completion_text_try c (PDict d) =
     (if provider c = OLLAMA \<and> map_of d ''message'' \<noteq> None then
        bind_exn (py_getitem (PDict d) (KStr ''message'')) (\<lambda>m. py_getitem m (KStr ''content''))
      else if map_of d ''choices'' \<noteq> None then
        bind_exn (py_getitem (PDict d) (KStr ''choices'')) (\<lambda>ch.
          bind_exn (py_getitem ch (KInt 0)) (\<lambda>c0.
            bind_exn (py_getitem c0 (KStr ''message'')) (\<lambda>m. py_getitem m (KStr ''content''))))
      else Inr (PStr []))"
  by (simp add: get_completion_text_try_def bind_exn_def)

lemma get_text_completion_try_dict:
  "get_text_completion_try c (PDict d) =
     (if provider c = OLLAMA \<and> map_of d ''response'' \<noteq> None then
        py_getitem (PDict d) (KStr ''response'')
      else if map_of d ''choices'' \<noteq> None then
        bind_exn (py_getitem (PDict d) (KStr ''choices'')) (\<lambda>ch.
          bind_exn (py_getitem ch (KInt 0)) (\<lambda>c0. py_getitem c0 (KStr ''text'')))
      else Inr (PStr []))"
  by (simp add: get_text_completion_try_def bind_exn_def)

lemma extraction_handler:
  "get_completion_text c r = Inl e \<Longrightarrow> \<not> caught_by_extraction e"
  "get_text_completion c r = Inl e \<Longrightarrow> \<not> caught_by_extraction e"
  by (auto simp: get_completion_text_def get_text_completion_def split: sum.splits if_splits)

text \<open>
  Where the text is missing because a key or a first list element is absent, both
  methods return the empty string: the response has none of the keys the method looks
  for (\<open>choices\<close>, and for OLLAMA \<open>message\<close> or \<open>response\<close> before it), or the path the
  method follows from such a key ends early (a \<open>message\<close> object without \<open>content\<close>, an
  empty \<open>choices\<close> list, a first choice without \<open>message\<close>, \<open>content\<close> or \<open>text\<close>). A
  KeyError, IndexError or AttributeError never leaves either method.
\<close>

lemma extraction_missing_key:
  "(map_of d ''choices'' = None \<and> (provider c = OLLAMA \<longrightarrow> map_of d ''message'' = None)
      \<longrightarrow> get_completion_text c (PDict d) = Inr (PStr []))
   \<and> (provider c = OLLAMA \<and> map_of d ''message'' = Some (PDict m) \<and> map_of m ''content'' = None
      \<longrightarrow> get_completion_text c (PDict d) = Inr (PStr []))
   \<and> ((provider c = OLLAMA \<longrightarrow> map_of d ''message'' = None)
       \<and> map_of d ''choices'' = Some (PList [])
      \<longrightarrow> get_completion_text c (PDict d) = Inr (PStr []))
   \<and> ((provider c = OLLAMA \<longrightarrow> map_of d ''message'' = None)
       \<and> map_of d ''choices'' = Some (PList (PDict c0 # rest)) \<and> map_of c0 ''message'' = None
      \<longrightarrow> get_completion_text c (PDict d) = Inr (PStr []))
   \<and> ((provider c = OLLAMA \<longrightarrow> map_of d ''message'' = None)
       \<and> map_of d ''choices'' = Some (PList (PDict c0 # rest))
       \<and> map_of c0 ''message'' = Some (PDict m) \<and> map_of m ''content'' = None
      \<longrightarrow> get_completion_text c (PDict d) = Inr (PStr []))
   \<and> (map_of d ''choices'' = None \<and> (provider c = OLLAMA \<longrightarrow> map_of d ''response'' = None)
      \<longrightarrow> get_text_completion c (PDict d) = Inr (PStr []))
   \<and> ((provider c = OLLAMA \<longrightarrow> map_of d ''response'' = None)
       \<and> map_of d ''choices'' = Some (PList [])
      \<longrightarrow> get_text_completion c (PDict d) = Inr (PStr []))
   \<and> ((provider c = OLLAMA \<longrightarrow> map_of d ''response'' = None)
       \<and> map_of d ''choices'' = Some (PList (PDict c0 # rest)) \<and> map_of c0 ''text'' = None
      \<longrightarrow> get_text_completion c (PDict d) = Inr (PStr []))
   \<and> (\<forall>e. get_completion_text c (PDict d) = Inl e \<or> get_text_completion c (PDict d) = Inl e
          \<longrightarrow> \<not> caught_by_extraction e)"
proof -
  note defs = get_completion_text_def get_text_completion_def get_completion_text_try_dict
    get_text_completion_try_dict bind_exn_def caught_by_extraction_def list_index_0
  have a1: "map_of d ''choices'' = None \<and> (provider c = OLLAMA \<longrightarrow> map_of d ''message'' = None)
      \<longrightarrow> get_completion_text c (PDict d) = Inr (PStr [])"
    by (simp add: defs)
  have a2: "provider c = OLLAMA \<and> map_of d ''message'' = Some (PDict m) \<and> map_of m ''content'' = None
      \<longrightarrow> get_completion_text c (PDict d) = Inr (PStr [])"
    by (simp add: defs)
  have a3: "(provider c = OLLAMA \<longrightarrow> map_of d ''message'' = None)
       \<and> map_of d ''choices'' = Some (PList [])
      \<longrightarrow> get_completion_text c (PDict d) = Inr (PStr [])"
    by (simp add: defs)
  have a4: "(provider c = OLLAMA \<longrightarrow> map_of d ''message'' = None)
       \<and> map_of d ''choices'' = Some (PList (PDict c0 # rest)) \<and> map_of c0 ''message'' = None
      \<longrightarrow> get_completion_text c (PDict d) = Inr (PStr [])"
    by (simp add: defs)
  have a5: "(provider c = OLLAMA \<longrightarrow> map_of d ''message'' = None)
       \<and> map_of d ''choices'' = Some (PList (PDict c0 # rest))
       \<and> map_of c0 ''message'' = Some (PDict m) \<and> map_of m ''content'' = None
      \<longrightarrow> get_completion_text c (PDict d) = Inr (PStr [])"
    by (simp add: defs)
  have b1: "map_of d ''choices'' = None \<and> (provider c = OLLAMA \<longrightarrow> map_of d ''response'' = None)
      \<longrightarrow> get_text_completion c (PDict d) = Inr (PStr [])"
    by (simp add: defs)
  have b3: "(provider c = OLLAMA \<longrightarrow> map_of d ''response'' = None)
       \<and> map_of d ''choices'' = Some (PList [])
      \<longrightarrow> get_text_completion c (PDict d) = Inr (PStr [])"
    by (simp add: defs)
  have b4: "(provider c = OLLAMA \<longrightarrow> map_of d ''response'' = None)
       \<and> map_of d ''choices'' = Some (PList (PDict c0 # rest)) \<and> map_of c0 ''text'' = None
      \<longrightarrow> get_text_completion c (PDict d) = Inr (PStr [])"
    by (simp add: defs)
  have h: "\<forall>e. get_completion_text c (PDict d) = Inl e \<or> get_text_completion c (PDict d) = Inl e
          \<longrightarrow> \<not> caught_by_extraction e"
    using extraction_handler by blast
  show ?thesis using a1 a2 a3 a4 a5 b1 b3 b4 h by blast
qed

text \<open>
  On a dictionary response the only exception that can leave the two methods is a
  TypeError, raised when a value on the path is not a container of the expected kind;
  the handler \<^verbatim>\<open>except (KeyError, IndexError, AttributeError)\<close> does not name it.
\<close>

lemma extraction_dict_only_type_error:
  "get_completion_text c (PDict d) = Inl e \<or> get_text_completion c (PDict d) = Inl e
     \<Longrightarrow> exn_class e = ''TypeError''"
  by (auto simp: get_completion_text_def get_text_completion_def get_completion_text_try_dict
                 get_text_completion_try_dict bind_exn_def caught_by_extraction_def
           split: sum.splits if_splits dest!: py_getitem_exn)

text \<open>
  Claim C4. For every provider and every dictionary response that is missing the expected
  text key, \<^verbatim>\<open>get_completion_text\<close> and \<^verbatim>\<open>get_text_completion\<close> return the empty string
  and never raise. The code does not do so on the responses below, each a dictionary
  without the text: \<^verbatim>\<open>{"message": null}\<close> for OLLAMA, \<^verbatim>\<open>{"choices": [{"message": null}]}\<close>,
  \<^verbatim>\<open>{"choices": null}\<close> and \<^verbatim>\<open>{"choices": [null]}\<close>. On each of them a TypeError reaches the
  caller.
\<close>

theorem extraction_type_error_escapes:
  "get_completion_text (example_client OLLAMA None True) (PDict [(''message'', PNone)])
     = raise_exn ''TypeError''
   \<and> get_completion_text (example_client DEEPSEEK (Some ''sk-test'') True)
         (PDict [(''choices'', PList [PDict [(''message'', PNone)]])])
       = raise_exn ''TypeError''
   \<and> get_text_completion (example_client DEEPSEEK (Some ''sk-test'') True)
         (PDict [(''choices'', PNone)])
       = raise_exn ''TypeError''
   \<and> get_text_completion (example_client DEEPSEEK (Some ''sk-test'') True)
         (PDict [(''choices'', PList [PNone])])
       = raise_exn ''TypeError''"
  by (simp add: get_completion_text_def get_text_completion_def get_completion_text_try_dict
                get_text_completion_try_dict bind_exn_def caught_by_extraction_def list_index_0
                example_client_def)

section \<open>The payload of a request\<close>

lemma net_chat_completion:
  "snd (snd (chat_completion T c messages model temperature max_tokens kwargs n))
     = snd (chat_try T c messages (effective_model Chat c model) temperature max_tokens kwargs n)"
  by (simp add: chat_completion_def Let_def split: prod.splits sum.splits)

lemma net_text_completion:
  "snd (snd (text_completion T c prompt model temperature max_tokens kwargs n))
     = snd (text_try T c prompt (effective_model Text c model) temperature max_tokens kwargs n)"
  by (simp add: text_completion_def Let_def split: prod.splits sum.splits)

lemma map_of_set_opt_int:
  "map_of (set_opt_int key k d) x = (if x = key \<and> k \<noteq> None then map_option PInt k else map_of d x)"
  by (cases k) (simp_all add: set_opt_int_def update_conv')

lemma map_of_set_opt_float:
  "map_of (set_opt_float key t d) x = (if x = key \<and> t \<noteq> None then map_option PFloat t else map_of d x)"
  by (cases t) (simp_all add: set_opt_float_def update_conv')

lemma ollama_options_lookup:
  "map_of (ollama_options temperature max_tokens) ''temperature'' = map_option PFloat temperature"
  "map_of (ollama_options temperature max_tokens) ''num_predict'' = map_option PInt max_tokens"
  by (cases temperature; cases max_tokens;
      simp add: ollama_options_def map_of_set_opt_int map_of_set_opt_float)+

lemma ollama_options_empty:
  "(ollama_options temperature max_tokens = []) = (temperature = None \<and> max_tokens = None)"
  by (cases temperature; cases max_tokens)
     (simp_all add: ollama_options_def set_opt_int_def set_opt_float_def)

lemma hosted_payload:
  assumes "''temperature'' \<notin> fst ` set kwargs" and "''max_tokens'' \<notin> fst ` set kwargs"
    and "map_of base ''temperature'' = Some (opt_float temperature)"
    and "map_of base ''max_tokens'' = None"
  shows "map_of (set_opt_int ''max_tokens'' max_tokens (dict_merge base kwargs)) ''temperature''
           = Some (opt_float temperature)
         \<and> map_of (set_opt_int ''max_tokens'' max_tokens (dict_merge base kwargs)) ''max_tokens''
           = map_option PInt max_tokens"
  using assms by (cases max_tokens) (simp_all add: map_of_set_opt_int map_of_dict_merge)

lemma fold_add_option_lookup:
  "k \<notin> fst ` set kwargs \<Longrightarrow>
     map_of (case fold (add_option ex) kwargs init of None \<Rightarrow> [] | Some d \<Rightarrow> d) k
       = map_of (case init of None \<Rightarrow> [] | Some d \<Rightarrow> d) k"
  by (induction kwargs arbitrary: init) (auto simp: add_option_def update_conv')

lemma fold_add_option_Some:
  "init \<noteq> None \<Longrightarrow> fold (add_option ex) kwargs init \<noteq> None"
  by (induction kwargs arbitrary: init) (auto simp: add_option_def)

lemma unified_ollama_payload:
  assumes "map_of base ''stream'' = Some (PBool False)" "map_of base ''temperature'' = None"
    "map_of base ''max_tokens'' = None" "map_of base ''options'' = None"
    and "p = attach_options (ollama_options temperature max_tokens) base"
  shows "map_of p ''stream'' = Some (PBool False)
         \<and> map_of p ''temperature'' = None \<and> map_of p ''max_tokens'' = None
         \<and> (temperature = None \<and> max_tokens = None \<longrightarrow> map_of p ''options'' = None)
         \<and> (temperature \<noteq> None \<or> max_tokens \<noteq> None \<longrightarrow>
              (\<exists>opts. map_of p ''options'' = Some (PDict opts)
                 \<and> map_of opts ''temperature'' = map_option PFloat temperature
                 \<and> map_of opts ''num_predict'' = map_option PInt max_tokens))"
  using assms
  by (auto simp: attach_options_def update_conv' ollama_options_lookup ollama_options_empty)

lemma ollama_client_payload:
  assumes "map_of base ''stream'' = Some (PBool False)" "map_of base ''temperature'' = None"
    "map_of base ''max_tokens'' = None"
    and "''temperature'' \<notin> fst ` set kwargs"
    and "p = ollama_payload ex base temperature max_tokens kwargs"
  shows "map_of p ''stream'' = Some (PBool False)
         \<and> map_of p ''temperature'' = None \<and> map_of p ''max_tokens'' = None
         \<and> (temperature \<noteq> None \<or> max_tokens \<noteq> None \<longrightarrow>
              (\<exists>opts. map_of p ''options'' = Some (PDict opts)
                 \<and> map_of opts ''temperature'' = map_option PFloat temperature
                 \<and> (''num_predict'' \<notin> fst ` set kwargs \<longrightarrow>
                      map_of opts ''num_predict'' = map_option PInt max_tokens)))"
proof -
  let ?options = "ollama_options temperature max_tokens"
  let ?init = "if ?options \<noteq> [] then Some ?options else None"
  let ?res = "fold (add_option ex) kwargs ?init"
  have p: "p = (case ?res of None \<Rightarrow> base | Some d \<Rightarrow> AList.update ''options'' (PDict d) base)"
    using assms(5) by (simp add: ollama_payload_def Let_def)
  have top: "map_of p ''stream'' = Some (PBool False)
             \<and> map_of p ''temperature'' = None \<and> map_of p ''max_tokens'' = None"
    using p assms(1-3) by (cases ?res) (simp_all add: update_conv')
  have nested: "\<exists>opts. map_of p ''options'' = Some (PDict opts)
                 \<and> map_of opts ''temperature'' = map_option PFloat temperature
                 \<and> (''num_predict'' \<notin> fst ` set kwargs \<longrightarrow>
                      map_of opts ''num_predict'' = map_option PInt max_tokens)"
    if ne: "temperature \<noteq> None \<or> max_tokens \<noteq> None"
  proof -
    have i: "?init = Some ?options" using ne ollama_options_empty by auto
    then have "?res \<noteq> None" using fold_add_option_Some [of ?init ex kwargs] by simp
    then obtain d where d: "?res = Some d" by auto
    have t: "map_of d ''temperature'' = map_option PFloat temperature"
      using fold_add_option_lookup [OF assms(4), of ex ?init] d i
      by (simp add: ollama_options_lookup)
    have k: "''num_predict'' \<notin> fst ` set kwargs \<Longrightarrow>
               map_of d ''num_predict'' = map_option PInt max_tokens"
      using fold_add_option_lookup [of "''num_predict''" kwargs ex ?init] d i
      by (simp add: ollama_options_lookup)
    have "map_of p ''options'' = Some (PDict d)" using p d by (simp add: update_conv')
    then show ?thesis using t k by blast
  qed
  show ?thesis using top nested by blast
qed

lemma hosted_payload_value:
  assumes "''temperature'' \<notin> fst ` set kwargs" and "''max_tokens'' \<notin> fst ` set kwargs"
    and "map_of base ''temperature'' = Some (opt_float temperature)"
    and "map_of base ''max_tokens'' = None"
  shows "map_of (set_opt_int ''max_tokens'' max_tokens (dict_merge base kwargs)) ''temperature''
           = Some (case temperature of None \<Rightarrow> PNone | Some t \<Rightarrow> PFloat t)
         \<and> map_of (set_opt_int ''max_tokens'' max_tokens (dict_merge base kwargs)) ''max_tokens''
           = map_option PInt max_tokens"
  using hosted_payload [OF assms] by (simp add: opt_float_def)

lemma library_arguments:
  assumes "''temperature'' \<notin> fst ` set kwargs" and "''max_tokens'' \<notin> fst ` set kwargs"
    and "map_of base ''temperature'' = Some (opt_float temperature)"
    and "map_of base ''max_tokens'' = Some (opt_int max_tokens)"
  shows "map_of (dict_merge base kwargs) ''temperature'' = Some (case temperature of None \<Rightarrow> PNone | Some t \<Rightarrow> PFloat t)
         \<and> map_of (dict_merge base kwargs) ''max_tokens'' = Some (case max_tokens of None \<Rightarrow> PNone | Some k \<Rightarrow> PInt k)"
  using assms by (simp add: map_of_dict_merge opt_float_def opt_int_def)

text \<open>
  Claim C8, as stated, at a concrete input: the OPENAI client the constructor builds from
  a credential when the client library is installed, and a chat request without
  \<open>max_tokens\<close>. No payload is posted; the arguments go to the library, and \<open>max_tokens\<close>
  is among them, with the value \<^verbatim>\<open>None\<close>, rather than omitted.
\<close>

theorem library_call_counterexample:
  "AIClient_init Map.empty True (Member OPENAI) (Some ''sk-test'') None True = Inr library_client
   \<and> sent (snd (snd (chat_completion failing_transport library_client hello_messages None
                      (Some 0.7) None [] net0)))
       = [SDK ''chat.completions.create''
            [(''model'', PStr ''gpt-3.5-turbo''), (''messages'', hello_messages),
             (''temperature'', PFloat 0.7), (''max_tokens'', PNone)]]"
  by (simp add: AIClient_init_def AIProvider_of_def bind_exn_def py_or_def truthy_def
                library_client_def net_chat_completion chat_try_def sent_issue dict_merge_def
                opt_float_def opt_int_def effective_model_def default_model_def net0_def Let_def)

text \<open>
  Claim C8, amended. The keyword arguments of a call cannot be named \<open>temperature\<close> or
  \<open>max_tokens\<close>, which are parameters of their own. For DEEPSEEK, and for OPENAI called
  over HTTP, the payload of a chat or text request carries the caller's \<open>temperature\<close> at
  the top level, and \<open>max_tokens\<close> there exactly when the caller supplied it. When the
  OPENAI client library is in use, no payload is built: \<open>temperature\<close> and \<open>max_tokens\<close>
  are handed to the library as keyword arguments, \<open>max_tokens\<close> always among them
  (\<^verbatim>\<open>None\<close> when it was not supplied). For OLLAMA the payload sets \<open>stream\<close> to false, has
  neither field at the top level, and nests \<open>temperature\<close> and \<open>num_predict\<close> (the value
  of \<open>max_tokens\<close>) under \<open>options\<close>, which is absent only when neither value was
  supplied. The payloads of the Ollama client have the same shape; there an extra keyword
  argument named \<open>num_predict\<close> is written into \<open>options\<close> after the value of
  \<open>max_tokens\<close>.
\<close>

theorem payload_shape:
  assumes "''temperature'' \<notin> fst ` set kwargs" and "''max_tokens'' \<notin> fst ` set kwargs"
  shows "(provider c = DEEPSEEK \<or> (provider c = OPENAI \<and> client c = None) \<longrightarrow>
            (\<exists>p. sent (snd (snd (chat_completion T c messages model temperature max_tokens kwargs n)))
                 = sent n @ [POST (fstr (base_url c) @ ''/chat/completions'') (headers c) (PDict p)]
               \<and> map_of p ''temperature'' = Some (case temperature of None \<Rightarrow> PNone | Some t \<Rightarrow> PFloat t)
               \<and> map_of p ''max_tokens'' = map_option PInt max_tokens)
            \<and> (\<exists>p. sent (snd (snd (text_completion T c prompt model temperature max_tokens kwargs n)))
                 = sent n @ [POST (fstr (base_url c) @ ''/completions'') (headers c) (PDict p)]
               \<and> map_of p ''temperature'' = Some (case temperature of None \<Rightarrow> PNone | Some t \<Rightarrow> PFloat t)
               \<and> map_of p ''max_tokens'' = map_option PInt max_tokens))
         \<and> (provider c = OPENAI \<and> client c \<noteq> None \<longrightarrow>
            (\<exists>args. sent (snd (snd (chat_completion T c messages model temperature max_tokens kwargs n))) = sent n @ [SDK ''chat.completions.create'' args]
               \<and> map_of args ''temperature'' = Some (case temperature of None \<Rightarrow> PNone | Some t \<Rightarrow> PFloat t)
               \<and> map_of args ''max_tokens'' = Some (case max_tokens of None \<Rightarrow> PNone | Some k \<Rightarrow> PInt k))
            \<and> (\<exists>args. sent (snd (snd (text_completion T c prompt model temperature max_tokens kwargs n))) = sent n @ [SDK ''completions.create'' args]
               \<and> map_of args ''temperature'' = Some (case temperature of None \<Rightarrow> PNone | Some t \<Rightarrow> PFloat t)
               \<and> map_of args ''max_tokens'' = Some (case max_tokens of None \<Rightarrow> PNone | Some k \<Rightarrow> PInt k)))
         \<and> (provider c = OLLAMA \<longrightarrow>
            (\<exists>p. sent (snd (snd (chat_completion T c messages model temperature max_tokens kwargs n)))
                 = sent n @ [POST (fstr (base_url c) @ ''/api/chat'') (headers c) (PDict p)]
               \<and> map_of p ''stream'' = Some (PBool False)
               \<and> map_of p ''temperature'' = None \<and> map_of p ''max_tokens'' = None
               \<and> (temperature = None \<and> max_tokens = None \<longrightarrow> map_of p ''options'' = None)
               \<and> (temperature \<noteq> None \<or> max_tokens \<noteq> None \<longrightarrow>
                    (\<exists>opts. map_of p ''options'' = Some (PDict opts)
                       \<and> map_of opts ''temperature'' = map_option PFloat temperature
                       \<and> map_of opts ''num_predict'' = map_option PInt max_tokens)))
            \<and> (\<exists>p. sent (snd (snd (text_completion T c prompt model temperature max_tokens kwargs n)))
                 = sent n @ [POST (fstr (base_url c) @ ''/api/generate'') (headers c) (PDict p)]
               \<and> map_of p ''stream'' = Some (PBool False)
               \<and> map_of p ''temperature'' = None \<and> map_of p ''max_tokens'' = None
               \<and> (temperature = None \<and> max_tokens = None \<longrightarrow> map_of p ''options'' = None)
               \<and> (temperature \<noteq> None \<or> max_tokens \<noteq> None \<longrightarrow>
                    (\<exists>opts. map_of p ''options'' = Some (PDict opts)
                       \<and> map_of opts ''temperature'' = map_option PFloat temperature
                       \<and> map_of opts ''num_predict'' = map_option PInt max_tokens))))
         \<and> (\<exists>p. sent (snd (ollama_chat_completion T oc messages m temperature max_tokens kwargs n))
                 = sent n @ [POST (o_base_url oc @ ''/api/chat'') (o_headers oc) (PDict p)]
               \<and> map_of p ''stream'' = Some (PBool False)
               \<and> map_of p ''temperature'' = None \<and> map_of p ''max_tokens'' = None
               \<and> (temperature \<noteq> None \<or> max_tokens \<noteq> None \<longrightarrow>
                    (\<exists>opts. map_of p ''options'' = Some (PDict opts)
                       \<and> map_of opts ''temperature'' = map_option PFloat temperature
                       \<and> (''num_predict'' \<notin> fst ` set kwargs \<longrightarrow>
                            map_of opts ''num_predict'' = map_option PInt max_tokens))))
         \<and> (\<exists>p. sent (snd (ollama_text_completion T oc prompt m temperature max_tokens kwargs n))
                 = sent n @ [POST (o_base_url oc @ ''/api/generate'') (o_headers oc) (PDict p)]
               \<and> map_of p ''stream'' = Some (PBool False)
               \<and> map_of p ''temperature'' = None \<and> map_of p ''max_tokens'' = None
               \<and> (temperature \<noteq> None \<or> max_tokens \<noteq> None \<longrightarrow>
                    (\<exists>opts. map_of p ''options'' = Some (PDict opts)
                       \<and> map_of opts ''temperature'' = map_option PFloat temperature
                       \<and> (''num_predict'' \<notin> fst ` set kwargs \<longrightarrow>
                            map_of opts ''num_predict'' = map_option PInt max_tokens))))"
proof -
  let ?mc = "effective_model Chat c model"
  let ?mt = "effective_model Text c model"
  have h1: "(\<exists>p. sent (snd (snd (chat_completion T c messages model temperature max_tokens kwargs n)))
                    = sent n @ [POST (fstr (base_url c) @ ''/chat/completions'') (headers c) (PDict p)]
                  \<and> map_of p ''temperature'' = Some (case temperature of None \<Rightarrow> PNone | Some t \<Rightarrow> PFloat t)
                  \<and> map_of p ''max_tokens'' = map_option PInt max_tokens)"
    if "provider c = DEEPSEEK \<or> (provider c = OPENAI \<and> client c = None)"
    using that hosted_payload_value [OF assms, of "[(''model'', PStr ?mc), (''messages'', messages),
                                   (''temperature'', opt_float temperature)]" temperature max_tokens]
    by (auto simp: net_chat_completion chat_try_def Let_def sent_issue)
  have h2: "(\<exists>p. sent (snd (snd (text_completion T c prompt model temperature max_tokens kwargs n)))
                    = sent n @ [POST (fstr (base_url c) @ ''/completions'') (headers c) (PDict p)]
                  \<and> map_of p ''temperature'' = Some (case temperature of None \<Rightarrow> PNone | Some t \<Rightarrow> PFloat t)
                  \<and> map_of p ''max_tokens'' = map_option PInt max_tokens)"
    if "provider c = DEEPSEEK \<or> (provider c = OPENAI \<and> client c = None)"
    using that hosted_payload_value [OF assms, of "[(''model'', PStr ?mt), (''prompt'', PStr prompt),
                                   (''temperature'', opt_float temperature)]" temperature max_tokens]
    by (auto simp: net_text_completion text_try_def Let_def sent_issue)
  have s1: "(\<exists>args. sent (snd (snd (chat_completion T c messages model temperature max_tokens kwargs n))) = sent n @ [SDK ''chat.completions.create'' args]
                  \<and> map_of args ''temperature'' = Some (case temperature of None \<Rightarrow> PNone | Some t \<Rightarrow> PFloat t)
                  \<and> map_of args ''max_tokens'' = Some (case max_tokens of None \<Rightarrow> PNone | Some k \<Rightarrow> PInt k))"
    if "provider c = OPENAI \<and> client c \<noteq> None"
    using that library_arguments [OF assms, of "[(''model'', PStr ?mc), (''messages'', messages),
                                   (''temperature'', opt_float temperature),
                                   (''max_tokens'', opt_int max_tokens)]" temperature max_tokens]
    by (auto simp: net_chat_completion chat_try_def sent_issue)
  have s2: "(\<exists>args. sent (snd (snd (text_completion T c prompt model temperature max_tokens kwargs n))) = sent n @ [SDK ''completions.create'' args]
                  \<and> map_of args ''temperature'' = Some (case temperature of None \<Rightarrow> PNone | Some t \<Rightarrow> PFloat t)
                  \<and> map_of args ''max_tokens'' = Some (case max_tokens of None \<Rightarrow> PNone | Some k \<Rightarrow> PInt k))"
    if "provider c = OPENAI \<and> client c \<noteq> None"
    using that library_arguments [OF assms, of "[(''model'', PStr ?mt), (''prompt'', PStr prompt),
                                   (''temperature'', opt_float temperature),
                                   (''max_tokens'', opt_int max_tokens)]" temperature max_tokens]
    by (auto simp: net_text_completion text_try_def sent_issue)
  have l1: "(\<exists>p. sent (snd (snd (chat_completion T c messages model temperature max_tokens kwargs n)))
                    = sent n @ [POST (fstr (base_url c) @ ''/api/chat'') (headers c) (PDict p)]
                  \<and> map_of p ''stream'' = Some (PBool False)
                  \<and> map_of p ''temperature'' = None \<and> map_of p ''max_tokens'' = None
                  \<and> (temperature = None \<and> max_tokens = None \<longrightarrow> map_of p ''options'' = None)
                  \<and> (temperature \<noteq> None \<or> max_tokens \<noteq> None \<longrightarrow>
                       (\<exists>opts. map_of p ''options'' = Some (PDict opts)
                          \<and> map_of opts ''temperature'' = map_option PFloat temperature
                          \<and> map_of opts ''num_predict'' = map_option PInt max_tokens)))"
    if "provider c = OLLAMA"
    using that unified_ollama_payload [of "[(''model'', PStr ?mc), (''messages'', messages),
                        (''stream'', PBool False)]" _ temperature max_tokens, OF _ _ _ _ refl]
    by (simp add: net_chat_completion chat_try_def Let_def sent_issue)
  have l2: "(\<exists>p. sent (snd (snd (text_completion T c prompt model temperature max_tokens kwargs n)))
                    = sent n @ [POST (fstr (base_url c) @ ''/api/generate'') (headers c) (PDict p)]
                  \<and> map_of p ''stream'' = Some (PBool False)
                  \<and> map_of p ''temperature'' = None \<and> map_of p ''max_tokens'' = None
                  \<and> (temperature = None \<and> max_tokens = None \<longrightarrow> map_of p ''options'' = None)
                  \<and> (temperature \<noteq> None \<or> max_tokens \<noteq> None \<longrightarrow>
                       (\<exists>opts. map_of p ''options'' = Some (PDict opts)
                          \<and> map_of opts ''temperature'' = map_option PFloat temperature
                          \<and> map_of opts ''num_predict'' = map_option PInt max_tokens)))"
    if "provider c = OLLAMA"
    using that unified_ollama_payload [of "[(''model'', PStr ?mt), (''prompt'', PStr prompt),
                        (''stream'', PBool False)]" _ temperature max_tokens, OF _ _ _ _ refl]
    by (simp add: net_text_completion text_try_def Let_def sent_issue)
  have o1: "(\<exists>p. sent (snd (ollama_chat_completion T oc messages m temperature max_tokens kwargs n))
                    = sent n @ [POST (o_base_url oc @ ''/api/chat'') (o_headers oc) (PDict p)]
                  \<and> map_of p ''stream'' = Some (PBool False)
                  \<and> map_of p ''temperature'' = None \<and> map_of p ''max_tokens'' = None
                  \<and> (temperature \<noteq> None \<or> max_tokens \<noteq> None \<longrightarrow>
                       (\<exists>opts. map_of p ''options'' = Some (PDict opts)
                          \<and> map_of opts ''temperature'' = map_option PFloat temperature
                          \<and> (''num_predict'' \<notin> fst ` set kwargs \<longrightarrow>
                               map_of opts ''num_predict'' = map_option PInt max_tokens))))"
    using ollama_client_payload [of "[(''model'', PStr m), (''messages'', messages),
             (''stream'', PBool False)]" kwargs _ "[''model'', ''messages'', ''stream'', ''options'']"
             temperature max_tokens, OF _ _ _ assms(1) refl]
    by (simp add: ollama_chat_completion_def Let_def sent_issue)
  have o2: "(\<exists>p. sent (snd (ollama_text_completion T oc prompt m temperature max_tokens kwargs n))
                    = sent n @ [POST (o_base_url oc @ ''/api/generate'') (o_headers oc) (PDict p)]
                  \<and> map_of p ''stream'' = Some (PBool False)
                  \<and> map_of p ''temperature'' = None \<and> map_of p ''max_tokens'' = None
                  \<and> (temperature \<noteq> None \<or> max_tokens \<noteq> None \<longrightarrow>
                       (\<exists>opts. map_of p ''options'' = Some (PDict opts)
                          \<and> map_of opts ''temperature'' = map_option PFloat temperature
                          \<and> (''num_predict'' \<notin> fst ` set kwargs \<longrightarrow>
                               map_of opts ''num_predict'' = map_option PInt max_tokens))))"
    using ollama_client_payload [of "[(''model'', PStr m), (''prompt'', PStr prompt),
             (''stream'', PBool False)]" kwargs _ "[''model'', ''prompt'', ''stream'', ''options'']"
             temperature max_tokens, OF _ _ _ assms(1) refl]
    by (simp add: ollama_text_completion_def Let_def sent_issue)
  show ?thesis using h1 h2 s1 s2 l1 l2 o1 o2 by blast
qed

theorem payload_shape_witness:
  "''temperature'' \<notin> fst ` set [(''top_p'', PFloat 0.9)]
   \<and> ''max_tokens'' \<notin> fst ` set [(''top_p'', PFloat 0.9)]
   \<and> provider (example_client DEEPSEEK (Some ''sk-test'') True) = DEEPSEEK
   \<and> (\<exists>p. sent (snd (snd (chat_completion failing_transport (example_client DEEPSEEK (Some ''sk-test'') True) hello_messages None
                               (Some 0.7) (Some 64) [(''top_p'', PFloat 0.9)] net0)))
                 = sent net0 @ [POST (fstr (base_url (example_client DEEPSEEK (Some ''sk-test'') True)) @ ''/chat/completions'')
                                  (headers (example_client DEEPSEEK (Some ''sk-test'') True)) (PDict p)]
               \<and> map_of p ''temperature'' = Some (PFloat 0.7)
               \<and> map_of p ''max_tokens'' = Some (PInt 64))
   \<and> provider library_client = OPENAI \<and> client library_client \<noteq> None
   \<and> (\<exists>args. sent (snd (snd (text_completion failing_transport library_client ''poem'' None
                                  (Some 0.7) None [(''top_p'', PFloat 0.9)] net0)))
                 = sent net0 @ [SDK ''completions.create'' args]
               \<and> map_of args ''temperature'' = Some (PFloat 0.7)
               \<and> map_of args ''max_tokens'' = Some PNone)"
  using payload_shape [where kwargs = "[(''top_p'', PFloat 0.9)]" and c = "example_client DEEPSEEK (Some ''sk-test'') True" and T = failing_transport
          and messages = hello_messages and model = None and temperature = "Some 0.7"
          and max_tokens = "Some 64" and n = net0 and prompt = "''poem''" and oc = example_ollama
          and m = "''llama2''"]
        payload_shape [where kwargs = "[(''top_p'', PFloat 0.9)]" and c = library_client and T = failing_transport
          and messages = hello_messages and model = None and temperature = "Some 0.7"
          and max_tokens = None and n = net0 and prompt = "''poem''" and oc = example_ollama
          and m = "''llama2''"]
  by (simp add: example_client_def library_client_def)

end
